theory Spec2Isabelle
  imports Complex_Main
begin

section \<open>Values, errors and Python list access\<close>

text \<open>
  A landmark is a Python object with attributes \<open>x\<close>, \<open>y\<close> and, in the modules C to F,
  \<open>z\<close> (default \<open>0.0\<close>). The modules A and B declare a two-attribute \<open>Point\<close> and
  never read \<open>z\<close>, so one record serves all modules. Coordinates are Python floats;
  they are modelled as real numbers, so every statement below is about the exact
  arithmetic that the floating-point code approximates.
\<close>

record point =
  p_x :: real
  p_y :: real
  p_z :: real

text \<open>The constructor call \<open>Point(x, y, z)\<close>.\<close>

definition Point :: "real \<Rightarrow> real \<Rightarrow> real \<Rightarrow> point" where
  "Point a b c = \<lparr>p_x = a, p_y = b, p_z = c\<rparr>"

datatype py_error = IndexError | TypeError | ValueError | KeyError

definition bind_err :: "py_error + 'a \<Rightarrow> ('a \<Rightarrow> py_error + 'b) \<Rightarrow> py_error + 'b" where
  "bind_err m f = (case m of Inl e \<Rightarrow> Inl e | Inr v \<Rightarrow> f v)"

text \<open>\<open>xs[i]\<close> for a literal index \<open>i \<ge> 0\<close> on a list: IndexError when out of range.\<close>

definition getitem :: "'a list \<Rightarrow> nat \<Rightarrow> py_error + 'a" where
  "getitem xs i = (if i < length xs then Inr (xs ! i) else Inl IndexError)"

text \<open>
  The argument of a detector may be \<open>None\<close>: subscripting \<open>None\<close> raises TypeError.
\<close>

definition subscript :: "'a list option \<Rightarrow> nat \<Rightarrow> py_error + 'a" where
  "subscript arg i = (case arg of None \<Rightarrow> Inl TypeError | Some xs \<Rightarrow> getitem xs i)"

text \<open>\<open>a and b\<close> on fallible operands: \<open>b\<close> is evaluated only when \<open>a\<close> is true.\<close>

definition and_err :: "py_error + bool \<Rightarrow> py_error + bool \<Rightarrow> py_error + bool" where
  "and_err a b = bind_err a (\<lambda>v. if v then b else Inr False)"

section \<open>Hands/A: the fist with the thumb to the side\<close>

text \<open>
  \<open>Hands/A/right.py\<close>, \<open>detect_right_hand\<close>. The list literal passed to \<open>all\<close> is built
  first, reading the indices 8, 6, 12, 10, 16, 14, 20, 18 in this order; there is no
  length check.
\<close>

definition A_detect_right_hand :: "point list option \<Rightarrow> py_error + string" where
  "A_detect_right_hand points =
     bind_err (subscript points 8) (\<lambda>p8.
     bind_err (subscript points 6) (\<lambda>p6.
     bind_err (subscript points 12) (\<lambda>p12.
     bind_err (subscript points 10) (\<lambda>p10.
     bind_err (subscript points 16) (\<lambda>p16.
     bind_err (subscript points 14) (\<lambda>p14.
     bind_err (subscript points 20) (\<lambda>p20.
     bind_err (subscript points 18) (\<lambda>p18.
     let fingers_folded =
           (p_y p8 > p_y p6 \<and> p_y p12 > p_y p10 \<and> p_y p16 > p_y p14 \<and> p_y p20 > p_y p18)
     in
     bind_err (subscript points 4) (\<lambda>p4.
     bind_err (subscript points 3) (\<lambda>p3.
     let thumb_extended = p_x p4 > p_x p3
     in Inr (if fingers_folded \<and> thumb_extended then ''A'' else '''')))))))))))"

text \<open>
  \<open>Hands/A/left.py\<close>, \<open>detect_left_hand\<close>: the finger test compares each tip with the
  base joint (5, 9, 13, 17) and the thumb test compares the tip with joint 2.
\<close>

definition A_detect_left_hand :: "point list option \<Rightarrow> py_error + string" where
  "A_detect_left_hand points =
     bind_err (subscript points 8) (\<lambda>p8.
     bind_err (subscript points 5) (\<lambda>p5.
     bind_err (subscript points 12) (\<lambda>p12.
     bind_err (subscript points 9) (\<lambda>p9.
     bind_err (subscript points 16) (\<lambda>p16.
     bind_err (subscript points 13) (\<lambda>p13.
     bind_err (subscript points 20) (\<lambda>p20.
     bind_err (subscript points 17) (\<lambda>p17.
     let fingers_folded =
           (p_y p8 > p_y p5 \<and> p_y p12 > p_y p9 \<and> p_y p16 > p_y p13 \<and> p_y p20 > p_y p17)
     in
     bind_err (subscript points 4) (\<lambda>p4.
     bind_err (subscript points 2) (\<lambda>p2.
     let thumb_extended = p_x p4 < p_x p2
     in Inr (if fingers_folded \<and> thumb_extended then ''A'' else '''')))))))))))"

section \<open>Hands/B: four fingers extended, thumb folded\<close>

text \<open>
  \<open>Hands/B/right.py\<close>, class \<open>RightHandGestureDetector\<close>. The class constants name the
  landmark indices; the only instance attribute is the alignment threshold. In each
  method a landmark that is read several times is bound once, at its first read.
\<close>

definition WRIST :: nat where "WRIST = 0"
definition THUMB_IP :: nat where "THUMB_IP = 2"
definition THUMB_TIP :: nat where "THUMB_TIP = 4"
definition INDEX_MCP :: nat where "INDEX_MCP = 5"
definition INDEX_TIP :: nat where "INDEX_TIP = 8"
definition MIDDLE_MCP :: nat where "MIDDLE_MCP = 9"
definition MIDDLE_TIP :: nat where "MIDDLE_TIP = 12"
definition RING_MCP :: nat where "RING_MCP = 13"
definition RING_TIP :: nat where "RING_TIP = 16"
definition PINKY_MCP :: nat where "PINKY_MCP = 17"
definition PINKY_TIP :: nat where "PINKY_TIP = 20"

record RightHandGestureDetector =
  thumb_alignment_threshold :: real

text \<open>
  The cross product of the vectors wrist to index base and wrist to pinky base, as
  \<open>_is_right_hand_palm_visible\<close> computes it.
\<close>

definition cross_product :: "point \<Rightarrow> point \<Rightarrow> point \<Rightarrow> real" where
  "cross_product index_mcp wrist pinky_mcp =
     (let wrist_to_index_x = p_x index_mcp - p_x wrist;
          wrist_to_index_y = p_y index_mcp - p_y wrist;
          wrist_to_pinky_x = p_x pinky_mcp - p_x wrist;
          wrist_to_pinky_y = p_y pinky_mcp - p_y wrist
      in wrist_to_index_x * wrist_to_pinky_y - wrist_to_index_y * wrist_to_pinky_x)"

definition is_right_hand_palm_visible :: "point list \<Rightarrow> py_error + bool" where
  "is_right_hand_palm_visible landmarks =
     bind_err (getitem landmarks INDEX_MCP) (\<lambda>index_mcp.
     bind_err (getitem landmarks WRIST) (\<lambda>wrist.
     bind_err (getitem landmarks PINKY_MCP) (\<lambda>pinky_mcp.
     Inr (cross_product index_mcp wrist pinky_mcp > 0))))"

definition are_four_fingers_extended :: "point list \<Rightarrow> py_error + bool" where
  "are_four_fingers_extended landmarks =
     bind_err (getitem landmarks INDEX_TIP) (\<lambda>index_tip.
     bind_err (getitem landmarks INDEX_MCP) (\<lambda>index_mcp.
     bind_err (getitem landmarks MIDDLE_TIP) (\<lambda>middle_tip.
     bind_err (getitem landmarks MIDDLE_MCP) (\<lambda>middle_mcp.
     bind_err (getitem landmarks RING_TIP) (\<lambda>ring_tip.
     bind_err (getitem landmarks RING_MCP) (\<lambda>ring_mcp.
     bind_err (getitem landmarks PINKY_TIP) (\<lambda>pinky_tip.
     bind_err (getitem landmarks PINKY_MCP) (\<lambda>pinky_mcp.
     Inr (p_y index_tip < p_y index_mcp \<and> p_y middle_tip < p_y middle_mcp
          \<and> p_y ring_tip < p_y ring_mcp \<and> p_y pinky_tip < p_y pinky_mcp)))))))))"

definition is_thumb_folded_against_palm :: "point list \<Rightarrow> py_error + bool" where
  "is_thumb_folded_against_palm landmarks =
     bind_err (getitem landmarks THUMB_TIP) (\<lambda>thumb_tip.
     bind_err (getitem landmarks INDEX_MCP) (\<lambda>index_mcp.
     let thumb_to_index_dist_sq =
           (p_x thumb_tip - p_x index_mcp)\<^sup>2 + (p_y thumb_tip - p_y index_mcp)\<^sup>2
     in
     bind_err (getitem landmarks THUMB_IP) (\<lambda>thumb_ip.
     let thumb_to_base_dist_sq =
           (p_x thumb_tip - p_x thumb_ip)\<^sup>2 + (p_y thumb_tip - p_y thumb_ip)\<^sup>2;
         distance_check = thumb_to_index_dist_sq < thumb_to_base_dist_sq
     in
     bind_err (getitem landmarks WRIST) (\<lambda>wrist.
     let wrist_x = p_x wrist;
         index_x = p_x index_mcp;
         thumb_x = p_x thumb_tip;
         position_check =
           (if wrist_x < index_x then wrist_x < thumb_x \<and> thumb_x < index_x
            else index_x < thumb_x \<and> thumb_x < wrist_x)
     in Inr (distance_check \<and> position_check)))))"

definition is_thumb_aligned_horizontally ::
  "RightHandGestureDetector \<Rightarrow> point list \<Rightarrow> py_error + bool" where
  "is_thumb_aligned_horizontally self landmarks =
     bind_err (getitem landmarks THUMB_TIP) (\<lambda>thumb_tip.
     bind_err (getitem landmarks INDEX_MCP) (\<lambda>index_mcp.
     let y_difference = \<bar>p_y thumb_tip - p_y index_mcp\<bar>
     in Inr (y_difference < thumb_alignment_threshold self)))"

text \<open>
  \<open>detect_right_hand_b_gesture\<close>: \<open>len(None)\<close> raises TypeError; any length other than
  21 returns the empty string before a landmark is read; a palm that is not visible
  returns the empty string before the three remaining tests, which are joined by \<open>and\<close>.
\<close>

definition detect_right_hand_b_gesture ::
  "RightHandGestureDetector \<Rightarrow> point list option \<Rightarrow> py_error + string" where
  "detect_right_hand_b_gesture self arg =
     (case arg of
        None \<Rightarrow> Inl TypeError
      | Some landmarks \<Rightarrow>
          if length landmarks \<noteq> 21 then Inr ''''
          else
            bind_err (is_right_hand_palm_visible landmarks) (\<lambda>visible.
            if \<not> visible then Inr ''''
            else
              bind_err
                (and_err (are_four_fingers_extended landmarks)
                  (and_err (is_thumb_folded_against_palm landmarks)
                    (is_thumb_aligned_horizontally self landmarks)))
                (\<lambda>ok. if ok then Inr ''B'' else Inr '''')))"

text \<open>The module-level \<open>detect_right_hand\<close> builds a detector with the default threshold 0.1.\<close>

definition B_detect_right_hand :: "point list option \<Rightarrow> py_error + string" where
  "B_detect_right_hand lm =
     detect_right_hand_b_gesture \<lparr>thumb_alignment_threshold = 0.1\<rparr> lm"

section \<open>Geometry shared by the modules C to F\<close>

text \<open>
  \<open>distance\<close>, \<open>vec\<close> and \<open>angle_deg\<close> are repeated verbatim in the modules that use
  them. A numpy 3-vector is a triple; \<open>np.linalg.norm\<close>, \<open>np.dot\<close> and \<open>np.cross\<close> are
  written out. \<open>math.acos\<close> raises ValueError outside \<open>[-1, 1]\<close>; \<open>math.degrees\<close>
  multiplies by \<open>180 / pi\<close>.
\<close>

type_synonym vector = "real \<times> real \<times> real"

definition distance :: "point \<Rightarrow> point \<Rightarrow> real" where
  "distance a b = sqrt ((p_x a - p_x b)\<^sup>2 + (p_y a - p_y b)\<^sup>2 + (p_z a - p_z b)\<^sup>2)"

definition vec :: "point \<Rightarrow> point \<Rightarrow> vector" where
  "vec a b = (p_x b - p_x a, p_y b - p_y a, p_z b - p_z a)"

definition norm3 :: "vector \<Rightarrow> real" where
  "norm3 v = (case v of (v1, v2, v3) \<Rightarrow> sqrt (v1\<^sup>2 + v2\<^sup>2 + v3\<^sup>2))"

definition dot3 :: "vector \<Rightarrow> vector \<Rightarrow> real" where
  "dot3 u v = (case u of (u1, u2, u3) \<Rightarrow> case v of (v1, v2, v3) \<Rightarrow> u1 * v1 + u2 * v2 + u3 * v3)"

definition cross3 :: "vector \<Rightarrow> vector \<Rightarrow> vector" where
  "cross3 u v =
     (case u of (u1, u2, u3) \<Rightarrow> case v of (v1, v2, v3) \<Rightarrow>
        (u2 * v3 - u3 * v2, u3 * v1 - u1 * v3, u1 * v2 - u2 * v1))"

definition component2 :: "vector \<Rightarrow> real" where
  "component2 v = (case v of (v1, v2, v3) \<Rightarrow> v3)"

definition py_acos :: "real \<Rightarrow> py_error + real" where
  "py_acos c = (if - 1 \<le> c \<and> c \<le> 1 then Inr (arccos c) else Inl ValueError)"

definition degrees :: "real \<Rightarrow> real" where
  "degrees r = r * 180 / pi"

definition angle_deg :: "point \<Rightarrow> point \<Rightarrow> point \<Rightarrow> py_error + real" where
  "angle_deg a b c =
     (let v1 = vec b a;
          v2 = vec b c;
          n1 = norm3 v1;
          n2 = norm3 v2
      in if n1 < 1 / 10 ^ 8 \<or> n2 < 1 / 10 ^ 8 then Inr 180
         else
           let cos_a = dot3 v1 v2 / (n1 * n2);
               cos_a = max (- 1) (min 1 cos_a)
           in bind_err (py_acos cos_a) (\<lambda>r. Inr (degrees r)))"

text \<open>\<open>sum\<close> of a list of booleans counts the true ones.\<close>

definition sum_bools :: "bool list \<Rightarrow> nat" where
  "sum_bools bs = length (filter (\<lambda>b. b) bs)"

section \<open>Hands/D: index finger up, the others curled\<close>

text \<open>
  The inner function \<open>is_curled\<close> of both D modules. The \<open>debug\<close> parameter of the
  detectors only prints and is left out.
\<close>

definition is_curled :: "point \<Rightarrow> point \<Rightarrow> point \<Rightarrow> py_error + bool" where
  "is_curled mcp pip tip =
     bind_err (angle_deg mcp pip tip) (\<lambda>angle_val.
     Inr (angle_val < 120 \<or> distance tip mcp < distance pip mcp * 0.95))"

text \<open>\<open>Hands/D/right.py\<close>, \<open>detect_right_hand\<close>.\<close>

definition D_detect_right_hand :: "point list option \<Rightarrow> py_error + bool" where
  "D_detect_right_hand arg =
     (case arg of
        None \<Rightarrow> Inr False
      | Some landmarks \<Rightarrow>
          if landmarks = [] \<or> length landmarks < 21 then Inr False
          else
            bind_err (getitem landmarks 0) (\<lambda>wrist.
            bind_err (getitem landmarks 1) (\<lambda>thumb_cmc.
            bind_err (getitem landmarks 2) (\<lambda>thumb_mcp.
            bind_err (getitem landmarks 3) (\<lambda>thumb_ip.
            bind_err (getitem landmarks 4) (\<lambda>thumb_tip.
            bind_err (getitem landmarks 5) (\<lambda>index_mcp.
            bind_err (getitem landmarks 6) (\<lambda>index_pip.
            bind_err (getitem landmarks 7) (\<lambda>index_dip.
            bind_err (getitem landmarks 8) (\<lambda>index_tip.
            bind_err (getitem landmarks 9) (\<lambda>middle_mcp.
            bind_err (getitem landmarks 10) (\<lambda>middle_pip.
            bind_err (getitem landmarks 11) (\<lambda>middle_dip.
            bind_err (getitem landmarks 12) (\<lambda>middle_tip.
            bind_err (getitem landmarks 13) (\<lambda>ring_mcp.
            bind_err (getitem landmarks 14) (\<lambda>ring_pip.
            bind_err (getitem landmarks 15) (\<lambda>ring_dip.
            bind_err (getitem landmarks 16) (\<lambda>ring_tip.
            bind_err (getitem landmarks 17) (\<lambda>pinky_mcp.
            bind_err (getitem landmarks 18) (\<lambda>pinky_pip.
            bind_err (getitem landmarks 19) (\<lambda>pinky_dip.
            bind_err (getitem landmarks 20) (\<lambda>pinky_tip.
            let palm_width = distance index_mcp pinky_mcp;
                contact_threshold = max (palm_width * 0.4) 0.03
            in
            bind_err (angle_deg index_mcp index_pip index_tip) (\<lambda>index_angle_pip.
            bind_err (angle_deg index_mcp index_dip index_tip) (\<lambda>index_angle_dip.
            let index_points_up = p_y index_tip < p_y index_mcp - 0.03;
                index_extended =
                  (index_angle_pip > 150 \<and> index_angle_dip > 140 \<and> index_points_up)
            in
            bind_err (is_curled middle_mcp middle_pip middle_tip) (\<lambda>middle_curled.
            bind_err (is_curled ring_mcp ring_pip ring_tip) (\<lambda>ring_curled.
            bind_err (is_curled pinky_mcp pinky_pip pinky_tip) (\<lambda>pinky_curled.
            let curled_count = sum_bools [middle_curled, ring_curled, pinky_curled];
                thumb_to_middle = distance thumb_tip middle_tip;
                thumb_to_ring = distance thumb_tip ring_tip;
                thumb_to_pinky = distance thumb_tip pinky_tip;
                thumb_to_index = distance thumb_tip index_tip;
                thumb_contacts =
                  (thumb_to_middle < contact_threshold \<or> thumb_to_ring < contact_threshold
                   \<or> thumb_to_pinky < contact_threshold);
                thumb_not_touch_index = thumb_to_index > max (palm_width * 0.25) 0.03;
                index_middle_sep = distance index_tip middle_tip;
                sep_ok = index_middle_sep > max (palm_width * 0.3) 0.05;
                all_criteria_met =
                  (index_extended \<and> curled_count \<ge> 2 \<and> thumb_contacts
                   \<and> thumb_not_touch_index \<and> sep_ok)
            in Inr all_criteria_met)))))))))))))))))))))))))))"

text \<open>
  \<open>Hands/D/left.py\<close>: \<open>_detect_d_internal\<close> repeats the body of the right-hand detector
  without the guard; \<open>detect_left_hand\<close> mirrors every landmark into a new \<open>Point\<close> and
  calls it.
\<close>

definition D_detect_d_internal :: "point list \<Rightarrow> py_error + bool" where
  "D_detect_d_internal landmarks =
     bind_err (getitem landmarks 0) (\<lambda>wrist.
     bind_err (getitem landmarks 1) (\<lambda>thumb_cmc.
     bind_err (getitem landmarks 2) (\<lambda>thumb_mcp.
     bind_err (getitem landmarks 3) (\<lambda>thumb_ip.
     bind_err (getitem landmarks 4) (\<lambda>thumb_tip.
     bind_err (getitem landmarks 5) (\<lambda>index_mcp.
     bind_err (getitem landmarks 6) (\<lambda>index_pip.
     bind_err (getitem landmarks 7) (\<lambda>index_dip.
     bind_err (getitem landmarks 8) (\<lambda>index_tip.
     bind_err (getitem landmarks 9) (\<lambda>middle_mcp.
     bind_err (getitem landmarks 10) (\<lambda>middle_pip.
     bind_err (getitem landmarks 11) (\<lambda>middle_dip.
     bind_err (getitem landmarks 12) (\<lambda>middle_tip.
     bind_err (getitem landmarks 13) (\<lambda>ring_mcp.
     bind_err (getitem landmarks 14) (\<lambda>ring_pip.
     bind_err (getitem landmarks 15) (\<lambda>ring_dip.
     bind_err (getitem landmarks 16) (\<lambda>ring_tip.
     bind_err (getitem landmarks 17) (\<lambda>pinky_mcp.
     bind_err (getitem landmarks 18) (\<lambda>pinky_pip.
     bind_err (getitem landmarks 19) (\<lambda>pinky_dip.
     bind_err (getitem landmarks 20) (\<lambda>pinky_tip.
     let palm_width = distance index_mcp pinky_mcp;
         contact_threshold = max (palm_width * 0.4) 0.03
     in
     bind_err (angle_deg index_mcp index_pip index_tip) (\<lambda>index_angle_pip.
     bind_err (angle_deg index_mcp index_dip index_tip) (\<lambda>index_angle_dip.
     let index_points_up = p_y index_tip < p_y index_mcp - 0.03;
         index_extended =
           (index_angle_pip > 150 \<and> index_angle_dip > 140 \<and> index_points_up)
     in
     bind_err (is_curled middle_mcp middle_pip middle_tip) (\<lambda>middle_curled.
     bind_err (is_curled ring_mcp ring_pip ring_tip) (\<lambda>ring_curled.
     bind_err (is_curled pinky_mcp pinky_pip pinky_tip) (\<lambda>pinky_curled.
     let curled_count = sum_bools [middle_curled, ring_curled, pinky_curled];
         thumb_to_middle = distance thumb_tip middle_tip;
         thumb_to_ring = distance thumb_tip ring_tip;
         thumb_to_pinky = distance thumb_tip pinky_tip;
         thumb_to_index = distance thumb_tip index_tip;
         thumb_contacts =
           (thumb_to_middle < contact_threshold \<or> thumb_to_ring < contact_threshold
            \<or> thumb_to_pinky < contact_threshold);
         thumb_not_touch_index = thumb_to_index > max (palm_width * 0.25) 0.03;
         index_middle_sep = distance index_tip middle_tip;
         sep_ok = index_middle_sep > max (palm_width * 0.3) 0.05;
         ok = (index_extended \<and> curled_count \<ge> 2 \<and> thumb_contacts
               \<and> thumb_not_touch_index \<and> sep_ok)
     in Inr ok))))))))))))))))))))))))))"

definition D_detect_left_hand :: "point list option \<Rightarrow> py_error + bool" where
  "D_detect_left_hand arg =
     (case arg of
        None \<Rightarrow> Inr False
      | Some landmarks \<Rightarrow>
          if landmarks = [] \<or> length landmarks < 21 then Inr False
          else
            let mirrored = map (\<lambda>lm. Point (1 - p_x lm) (p_y lm) (p_z lm)) landmarks
            in D_detect_d_internal mirrored)"

section \<open>Hands/F: thumb and index tips touching, three fingers straight\<close>

text \<open>
  The inner function \<open>is_finger_straight_and_extended\<close> reads \<open>palm_width\<close> and
  \<open>palm_length\<close> from the enclosing call; they are parameters here. Its \<open>dip\<close> and
  \<open>finger_name\<close> arguments are used for printing only.
\<close>

definition is_finger_straight_and_extended ::
  "real \<Rightarrow> real \<Rightarrow> point \<Rightarrow> point \<Rightarrow> point \<Rightarrow> point \<Rightarrow> bool" where
  "is_finger_straight_and_extended palm_width palm_length tip dip pip mcp =
     (let points_up = p_y tip < p_y mcp - palm_width * 0.2;
          finger_length = distance tip mcp;
          expected_length = palm_length * 0.7;
          is_long_enough = finger_length > expected_length;
          tip_to_pip = distance tip pip;
          pip_to_mcp = distance pip mcp;
          joints_extended = tip_to_pip > pip_to_mcp * 0.6;
          finger_good = (points_up \<and> is_long_enough \<and> joints_extended)
      in finger_good)"

text \<open>\<open>Hands/F/right.py\<close>, \<open>detect_right_hand\<close>.\<close>

definition F_detect_right_hand :: "point list option \<Rightarrow> py_error + bool" where
  "F_detect_right_hand arg =
     (case arg of
        None \<Rightarrow> Inr False
      | Some landmarks \<Rightarrow>
          if landmarks = [] \<or> length landmarks < 21 then Inr False
          else
            bind_err (getitem landmarks 0) (\<lambda>wrist.
            bind_err (getitem landmarks 4) (\<lambda>thumb_tip.
            bind_err (getitem landmarks 3) (\<lambda>thumb_ip.
            bind_err (getitem landmarks 2) (\<lambda>thumb_mcp.
            bind_err (getitem landmarks 8) (\<lambda>index_tip.
            bind_err (getitem landmarks 7) (\<lambda>index_dip.
            bind_err (getitem landmarks 6) (\<lambda>index_pip.
            bind_err (getitem landmarks 5) (\<lambda>index_mcp.
            bind_err (getitem landmarks 12) (\<lambda>middle_tip.
            bind_err (getitem landmarks 11) (\<lambda>middle_dip.
            bind_err (getitem landmarks 10) (\<lambda>middle_pip.
            bind_err (getitem landmarks 9) (\<lambda>middle_mcp.
            bind_err (getitem landmarks 16) (\<lambda>ring_tip.
            bind_err (getitem landmarks 15) (\<lambda>ring_dip.
            bind_err (getitem landmarks 14) (\<lambda>ring_pip.
            bind_err (getitem landmarks 13) (\<lambda>ring_mcp.
            bind_err (getitem landmarks 20) (\<lambda>pinky_tip.
            bind_err (getitem landmarks 19) (\<lambda>pinky_dip.
            bind_err (getitem landmarks 18) (\<lambda>pinky_pip.
            bind_err (getitem landmarks 17) (\<lambda>pinky_mcp.
            let palm_width = distance index_mcp pinky_mcp;
                palm_length = distance wrist middle_mcp;
                thumb_index_distance = distance thumb_tip index_tip;
                tips_touching = thumb_index_distance < palm_width * 0.25;
                index_length = distance index_tip index_mcp;
                index_expected_full_length = palm_length * 0.8;
                index_partially_bent = index_length < index_expected_full_length * 0.85;
                thumb_length = distance thumb_tip thumb_mcp;
                thumb_natural_position = thumb_length > distance thumb_ip thumb_mcp * 0.9;
                straight_fingers_count = sum_bools
                  [is_finger_straight_and_extended palm_width palm_length
                     middle_tip middle_dip middle_pip middle_mcp,
                   is_finger_straight_and_extended palm_width palm_length
                     ring_tip ring_dip ring_pip ring_mcp,
                   is_finger_straight_and_extended palm_width palm_length
                     pinky_tip pinky_dip pinky_pip pinky_mcp];
                middle_ring_gap = distance middle_tip ring_tip;
                ring_pinky_gap = distance ring_tip pinky_tip;
                min_spread = palm_width * 0.15;
                max_spread = palm_width * 0.5;
                good_spread =
                  ((min_spread < middle_ring_gap \<and> middle_ring_gap < max_spread)
                   \<and> (min_spread < ring_pinky_gap \<and> ring_pinky_gap < max_spread));
                index_to_middle = distance index_tip middle_tip;
                index_separated_from_group = index_to_middle > palm_width * 0.3;
                index_not_pointing_up = p_y index_tip > p_y middle_tip - palm_width * 0.1;
                v1 = vec wrist index_mcp;
                v2 = vec wrist pinky_mcp;
                normal = cross3 v1 v2;
                palm_facing_forward = component2 normal > - 0.3;
                contact_ok = (tips_touching \<and> index_partially_bent \<and> thumb_natural_position);
                fingers_ok = straight_fingers_count \<ge> 2;
                spread_ok = good_spread;
                position_ok = (index_separated_from_group \<and> index_not_pointing_up);
                orientation_ok = palm_facing_forward;
                final_result =
                  (contact_ok \<and> fingers_ok \<and> spread_ok \<and> position_ok \<and> orientation_ok)
            in Inr final_result)))))))))))))))))))))"

text \<open>
  \<open>Hands/F/left.py\<close>: \<open>_detect_f_real_camera_internal\<close> repeats the right-hand body;
  \<open>detect_left_hand_f_real_camera\<close> appends one mirrored \<open>Point\<close> per landmark to a new
  list and calls it.
\<close>

definition F_detect_f_real_camera_internal :: "point list \<Rightarrow> py_error + bool" where
  "F_detect_f_real_camera_internal landmarks =
     bind_err (getitem landmarks 0) (\<lambda>wrist.
     bind_err (getitem landmarks 4) (\<lambda>thumb_tip.
     bind_err (getitem landmarks 3) (\<lambda>thumb_ip.
     bind_err (getitem landmarks 2) (\<lambda>thumb_mcp.
     bind_err (getitem landmarks 8) (\<lambda>index_tip.
     bind_err (getitem landmarks 7) (\<lambda>index_dip.
     bind_err (getitem landmarks 6) (\<lambda>index_pip.
     bind_err (getitem landmarks 5) (\<lambda>index_mcp.
     bind_err (getitem landmarks 12) (\<lambda>middle_tip.
     bind_err (getitem landmarks 11) (\<lambda>middle_dip.
     bind_err (getitem landmarks 10) (\<lambda>middle_pip.
     bind_err (getitem landmarks 9) (\<lambda>middle_mcp.
     bind_err (getitem landmarks 16) (\<lambda>ring_tip.
     bind_err (getitem landmarks 15) (\<lambda>ring_dip.
     bind_err (getitem landmarks 14) (\<lambda>ring_pip.
     bind_err (getitem landmarks 13) (\<lambda>ring_mcp.
     bind_err (getitem landmarks 20) (\<lambda>pinky_tip.
     bind_err (getitem landmarks 19) (\<lambda>pinky_dip.
     bind_err (getitem landmarks 18) (\<lambda>pinky_pip.
     bind_err (getitem landmarks 17) (\<lambda>pinky_mcp.
     let palm_width = distance index_mcp pinky_mcp;
         palm_length = distance wrist middle_mcp;
         thumb_index_distance = distance thumb_tip index_tip;
         tips_touching = thumb_index_distance < palm_width * 0.25;
         index_length = distance index_tip index_mcp;
         index_expected_full_length = palm_length * 0.8;
         index_partially_bent = index_length < index_expected_full_length * 0.85;
         thumb_length = distance thumb_tip thumb_mcp;
         thumb_natural_position = thumb_length > distance thumb_ip thumb_mcp * 0.9;
         straight_fingers_count = sum_bools
           [is_finger_straight_and_extended palm_width palm_length
              middle_tip middle_dip middle_pip middle_mcp,
            is_finger_straight_and_extended palm_width palm_length
              ring_tip ring_dip ring_pip ring_mcp,
            is_finger_straight_and_extended palm_width palm_length
              pinky_tip pinky_dip pinky_pip pinky_mcp];
         middle_ring_gap = distance middle_tip ring_tip;
         ring_pinky_gap = distance ring_tip pinky_tip;
         min_spread = palm_width * 0.15;
         max_spread = palm_width * 0.5;
         good_spread =
           ((min_spread < middle_ring_gap \<and> middle_ring_gap < max_spread)
            \<and> (min_spread < ring_pinky_gap \<and> ring_pinky_gap < max_spread));
         index_to_middle = distance index_tip middle_tip;
         index_separated_from_group = index_to_middle > palm_width * 0.3;
         index_not_pointing_up = p_y index_tip > p_y middle_tip - palm_width * 0.1;
         v1 = vec wrist index_mcp;
         v2 = vec wrist pinky_mcp;
         normal = cross3 v1 v2;
         palm_facing_forward = component2 normal > - 0.3;
         contact_ok = (tips_touching \<and> index_partially_bent \<and> thumb_natural_position);
         fingers_ok = straight_fingers_count \<ge> 2;
         spread_ok = good_spread;
         position_ok = (index_separated_from_group \<and> index_not_pointing_up);
         orientation_ok = palm_facing_forward;
         final_result =
           (contact_ok \<and> fingers_ok \<and> spread_ok \<and> position_ok \<and> orientation_ok)
     in Inr final_result))))))))))))))))))))"

definition F_detect_left_hand_f_real_camera :: "point list option \<Rightarrow> py_error + bool" where
  "F_detect_left_hand_f_real_camera arg =
     (case arg of
        None \<Rightarrow> Inr False
      | Some landmarks \<Rightarrow>
          if landmarks = [] \<or> length landmarks < 21 then Inr False
          else
            let mirrored_landmarks =
                  foldl (\<lambda>acc lm. acc @ [Point (1 - p_x lm) (p_y lm) (p_z lm)]) [] landmarks
            in F_detect_f_real_camera_internal mirrored_landmarks)"

section \<open>Hands/C: the curved hand\<close>

text \<open>
  \<open>Hands/C/left.py\<close>, \<open>_detect_c_shape_internal\<close>. The source's names \<open>index_pip\<close> to
  \<open>pinky_pip\<close> hold the landmarks 7, 11, 15 and 19. The loop over the four fingers
  counts the curved ones; the loop over the adjacent fingertip distances stops at
  the first jump above 0.08.
\<close>

definition curved_count_loop :: "point \<Rightarrow> (point \<times> point) list \<Rightarrow> nat" where
  "curved_count_loop wrist fingers =
     foldl (\<lambda>curved_count (tip, mcp).
              let tip_to_wrist = distance tip wrist;
                  mcp_to_wrist = distance mcp wrist
              in if tip_to_wrist > mcp_to_wrist * 0.9 \<and> p_z tip > p_z mcp - 0.05
                 then curved_count + 1 else curved_count)
           0 fingers"

fun smooth_arc_loop :: "real list \<Rightarrow> bool" where
  "smooth_arc_loop (d0 # d1 # ds) =
     (let diff = \<bar>d0 - d1\<bar> in if diff > 0.08 then False else smooth_arc_loop (d1 # ds))"
| "smooth_arc_loop ds = True"

definition C_detect_c_shape_internal :: "point list \<Rightarrow> py_error + bool" where
  "C_detect_c_shape_internal landmarks =
     bind_err (getitem landmarks 0) (\<lambda>wrist.
     bind_err (getitem landmarks 4) (\<lambda>thumb_tip.
     bind_err (getitem landmarks 3) (\<lambda>thumb_ip.
     bind_err (getitem landmarks 2) (\<lambda>thumb_mcp.
     bind_err (getitem landmarks 8) (\<lambda>index_tip.
     bind_err (getitem landmarks 7) (\<lambda>index_pip.
     bind_err (getitem landmarks 5) (\<lambda>index_mcp.
     bind_err (getitem landmarks 12) (\<lambda>middle_tip.
     bind_err (getitem landmarks 11) (\<lambda>middle_pip.
     bind_err (getitem landmarks 9) (\<lambda>middle_mcp.
     bind_err (getitem landmarks 16) (\<lambda>ring_tip.
     bind_err (getitem landmarks 15) (\<lambda>ring_pip.
     bind_err (getitem landmarks 13) (\<lambda>ring_mcp.
     bind_err (getitem landmarks 20) (\<lambda>pinky_tip.
     bind_err (getitem landmarks 19) (\<lambda>pinky_pip.
     bind_err (getitem landmarks 17) (\<lambda>pinky_mcp.
     let v1 = (p_x index_mcp - p_x wrist, p_y index_mcp - p_y wrist, p_z index_mcp - p_z wrist);
         v2 = (p_x pinky_mcp - p_x wrist, p_y pinky_mcp - p_y wrist, p_z pinky_mcp - p_z wrist);
         normal = cross3 v1 v2
     in
     if component2 normal < 0 then Inr False
     else
       let fingers = [(index_tip, index_mcp), (middle_tip, middle_mcp),
                      (ring_tip, ring_mcp), (pinky_tip, pinky_mcp)];
           curved_count = curved_count_loop wrist fingers
       in
       if curved_count < 3 then Inr False
       else
         let thumb_extended = distance thumb_tip thumb_mcp > distance thumb_ip thumb_mcp;
             thumb_to_index_dist = distance thumb_tip index_tip;
             thumb_to_pinky_dist = distance thumb_tip pinky_tip;
             palm_width = distance index_mcp pinky_mcp;
             thumb_separation_ok =
               ((0.6 * palm_width < thumb_to_index_dist \<and> thumb_to_index_dist < 1.8 * palm_width)
                \<and> (0.8 * palm_width < thumb_to_pinky_dist \<and> thumb_to_pinky_dist < 2.0 * palm_width))
         in
         if \<not> (thumb_extended \<and> thumb_separation_ok) then Inr False
         else
           let fingertips = [index_tip, middle_tip, ring_tip, pinky_tip];
               tip_distances_from_wrist = map (\<lambda>tip. distance tip wrist) fingertips;
               smooth_arc = smooth_arc_loop tip_distances_from_wrist;
               fingers_not_extended =
                 list_all (\<lambda>(tip, mcp). distance tip mcp < distance mcp wrist * 1.2) fingers;
               fingers_not_closed =
                 list_all (\<lambda>(tip, mcp). distance tip wrist > distance mcp wrist * 0.8) fingers
           in Inr (smooth_arc \<and> fingers_not_extended \<and> fingers_not_closed)))))))))))))))))"

definition C_detect_left_hand :: "point list option \<Rightarrow> py_error + bool" where
  "C_detect_left_hand arg =
     (case arg of
        None \<Rightarrow> Inr False
      | Some landmarks \<Rightarrow>
          if landmarks = [] \<or> length landmarks < 21 then Inr False
          else
            let mirrored_landmarks =
                  foldl (\<lambda>acc lm. acc @ [Point (1 - p_x lm) (p_y lm) (p_z lm)]) [] landmarks
            in C_detect_c_shape_internal mirrored_landmarks)"

section \<open>Hands/E: the closed hand\<close>

text \<open>
  \<open>Hands/E/left.py\<close>, \<open>detect_left_hand\<close> (the right-hand module is commented out as a
  whole). The inner function \<open>is_finger_curled\<close> reads \<open>wrist\<close> and \<open>palm_width\<close> from
  the enclosing call. The generator passed to \<open>max\<close> yields the six pairwise
  fingertip distances in the order (0,1), (0,2), (0,3), (1,2), (1,3), (2,3).
\<close>

definition is_finger_curled :: "point \<Rightarrow> real \<Rightarrow> point \<Rightarrow> point \<Rightarrow> point \<Rightarrow> bool" where
  "is_finger_curled wrist palm_width tip pip mcp =
     (let tip_to_wrist = distance tip wrist;
          pip_to_wrist = distance pip wrist;
          mcp_to_wrist = distance mcp wrist;
          curled_inward = tip_to_wrist < pip_to_wrist + palm_width * 0.1;
          tip_to_mcp = distance tip mcp;
          not_extended = tip_to_mcp < mcp_to_wrist * 0.8;
          y_curled = p_y tip \<ge> p_y pip - palm_width * 0.1
      in curled_inward \<and> not_extended \<and> y_curled)"

definition avg_finger_x :: "point list \<Rightarrow> real" where
  "avg_finger_x finger_tips = sum_list (map p_x finger_tips) / 4"

definition avg_finger_y :: "point list \<Rightarrow> real" where
  "avg_finger_y finger_tips = sum_list (map p_y finger_tips) / 4"

definition E_detect_left_hand :: "point list option \<Rightarrow> py_error + bool" where
  "E_detect_left_hand arg =
     (case arg of
        None \<Rightarrow> Inr False
      | Some landmarks \<Rightarrow>
          if landmarks = [] \<or> length landmarks < 21 then Inr False
          else
            bind_err (getitem landmarks 0) (\<lambda>wrist.
            bind_err (getitem landmarks 4) (\<lambda>thumb_tip.
            bind_err (getitem landmarks 3) (\<lambda>thumb_ip.
            bind_err (getitem landmarks 2) (\<lambda>thumb_mcp.
            bind_err (getitem landmarks 8) (\<lambda>index_tip.
            bind_err (getitem landmarks 6) (\<lambda>index_pip.
            bind_err (getitem landmarks 5) (\<lambda>index_mcp.
            bind_err (getitem landmarks 12) (\<lambda>middle_tip.
            bind_err (getitem landmarks 10) (\<lambda>middle_pip.
            bind_err (getitem landmarks 9) (\<lambda>middle_mcp.
            bind_err (getitem landmarks 16) (\<lambda>ring_tip.
            bind_err (getitem landmarks 14) (\<lambda>ring_pip.
            bind_err (getitem landmarks 13) (\<lambda>ring_mcp.
            bind_err (getitem landmarks 20) (\<lambda>pinky_tip.
            bind_err (getitem landmarks 18) (\<lambda>pinky_pip.
            bind_err (getitem landmarks 17) (\<lambda>pinky_mcp.
            let palm_width = distance index_mcp pinky_mcp;
                fingers_curled_count = sum_bools
                  [is_finger_curled wrist palm_width index_tip index_pip index_mcp,
                   is_finger_curled wrist palm_width middle_tip middle_pip middle_mcp,
                   is_finger_curled wrist palm_width ring_tip ring_pip ring_mcp,
                   is_finger_curled wrist palm_width pinky_tip pinky_pip pinky_mcp];
                finger_tips = [index_tip, middle_tip, ring_tip, pinky_tip];
                thumb_to_finger_area =
                  distance thumb_tip
                    (Point (avg_finger_x finger_tips) (avg_finger_y finger_tips) 0);
                thumb_near_fingers = thumb_to_finger_area < palm_width * 0.6;
                thumb_visible = p_x thumb_tip < avg_finger_x finger_tips;
                thumb_to_wrist = distance thumb_tip wrist;
                thumb_mcp_to_wrist = distance thumb_mcp wrist;
                thumb_not_extended = thumb_to_wrist < thumb_mcp_to_wrist * 1.3;
                max_spread = foldl max (distance index_tip middle_tip)
                  [distance index_tip ring_tip, distance index_tip pinky_tip,
                   distance middle_tip ring_tip, distance middle_tip pinky_tip,
                   distance ring_tip pinky_tip];
                compact_fist = max_spread < palm_width * 0.8;
                avg_tip_to_wrist = sum_list (map (\<lambda>t. distance t wrist) finger_tips) / 4;
                avg_mcp_to_wrist =
                  sum_list (map (\<lambda>mcp. distance mcp wrist)
                    [index_mcp, middle_mcp, ring_mcp, pinky_mcp]) / 4;
                fist_position = avg_tip_to_wrist < avg_mcp_to_wrist + palm_width * 0.2;
                fingers_ok = fingers_curled_count \<ge> 3;
                thumb_ok = (thumb_near_fingers \<and> thumb_visible \<and> thumb_not_extended);
                shape_ok = (compact_fist \<and> fist_position);
                final_result = (fingers_ok \<and> thumb_ok \<and> shape_ok)
            in Inr final_result)))))))))))))))))"

section \<open>ws_server.py: the loop over the letters\<close>

text \<open>
  A detector returns a string (A, B) or a boolean (C to F); the server tests the
  result with \<open>if detected\<close>, which is true for a non-empty string and for \<open>True\<close>.
\<close>

datatype pyval = Str string | Bool bool

definition truthy :: "pyval \<Rightarrow> bool" where
  "truthy v = (case v of Str s \<Rightarrow> s \<noteq> [] | Bool b \<Rightarrow> b)"

type_synonym detector = "point list option \<Rightarrow> py_error + pyval"

definition returns_str :: "(point list option \<Rightarrow> py_error + string) \<Rightarrow> detector" where
  "returns_str f arg = (case f arg of Inl e \<Rightarrow> Inl e | Inr s \<Rightarrow> Inr (Str s))"

definition returns_bool :: "(point list option \<Rightarrow> py_error + bool) \<Rightarrow> detector" where
  "returns_bool f arg = (case f arg of Inl e \<Rightarrow> Inl e | Inr b \<Rightarrow> Inr (Bool b))"

text \<open>
  An entry of \<open>letter_modules\<close> holds the two imported modules of a letter; of a module
  the server uses the detector (\<open>detect_left_hand\<close> of the left module,
  \<open>detect_right_hand\<close> of the right one) and the class \<open>Point\<close>, which it calls with two
  arguments.
\<close>

record letter_module =
  left_module :: detector
  right_module :: detector

definition LETTERS :: "string list" where
  "LETTERS = [''A'', ''B'', ''C'']"

text \<open>
  The dictionary that the import loop builds for \<open>LETTERS\<close>. The modules
  \<open>Hands.B.left\<close> and \<open>Hands.C.right\<close> are not among the sources, so their detectors
  are the parameters \<open>B_left\<close> and \<open>C_right\<close>.
\<close>

definition letter_modules :: "detector \<Rightarrow> detector \<Rightarrow> string \<rightharpoonup> letter_module" where
  "letter_modules B_left C_right =
     [''A'' \<mapsto> \<lparr>left_module = returns_str A_detect_left_hand,
                 right_module = returns_str A_detect_right_hand\<rparr>,
      ''B'' \<mapsto> \<lparr>left_module = B_left,
                 right_module = returns_str B_detect_right_hand\<rparr>,
      ''C'' \<mapsto> \<lparr>left_module = returns_bool C_detect_left_hand,
                 right_module = C_right\<rparr>]"

text \<open>
  \<open>convert_mediapipe_to_points\<close>: one \<open>PointClass(lm.x, lm.y)\<close> per tracker landmark,
  so \<open>z\<close> takes its default. A tracker landmark is given as a \<open>point\<close>.
\<close>

definition convert_mediapipe_to_points ::
  "(string \<rightharpoonup> letter_module) \<Rightarrow> point list \<Rightarrow> string \<Rightarrow> string \<Rightarrow> py_error + point list" where
  "convert_mediapipe_to_points mods mediapipe_landmarks label letter =
     (case mods letter of
        None \<Rightarrow> Inl KeyError
      | Some m \<Rightarrow> Inr (map (\<lambda>lm. Point (p_x lm) (p_y lm) 0) mediapipe_landmarks))"

text \<open>Lines 91 to 97: the value of \<open>detected\<close> for one letter.\<close>

definition detected ::
  "(string \<rightharpoonup> letter_module) \<Rightarrow> point list \<Rightarrow> string \<Rightarrow> string \<Rightarrow> py_error + pyval" where
  "detected mods hand_landmarks label letter =
     bind_err (convert_mediapipe_to_points mods hand_landmarks label letter) (\<lambda>points.
     case mods letter of
       None \<Rightarrow> Inl KeyError
     | Some m \<Rightarrow>
         if label = ''Left'' then left_module m (Some points)
         else right_module m (Some points))"

text \<open>
  Lines 90 to 101: the loop over the letters, returning the value of \<open>translation\<close>
  when it ends; an exception of a detector leaves the loop.
\<close>

fun check_letters ::
  "(string \<rightharpoonup> letter_module) \<Rightarrow> point list \<Rightarrow> string \<Rightarrow> string list \<Rightarrow> py_error + string" where
  "check_letters mods hand_landmarks label [] = Inr ''''"
| "check_letters mods hand_landmarks label (letter # rest) =
     bind_err (detected mods hand_landmarks label letter) (\<lambda>d.
     if truthy d then Inr letter
     else check_letters mods hand_landmarks label rest)"

text \<open>Lines 75 to 104: the loop over the detected hands stops at the first translation.\<close>

fun check_hands ::
  "(string \<rightharpoonup> letter_module) \<Rightarrow> (point list \<times> string) list \<Rightarrow> py_error + string" where
  "check_hands mods [] = Inr ''''"
| "check_hands mods ((hand_landmarks, label) # rest) =
     bind_err (check_letters mods hand_landmarks label LETTERS) (\<lambda>translation.
     if translation \<noteq> '''' then Inr translation else check_hands mods rest)"

text \<open>
  The reply to one frame, without the image: an exception anywhere in the frame's
  processing is caught and answered with an empty translation and status \<open>error\<close>.
\<close>

record response =
  translation :: string
  status :: string

definition frame_response ::
  "(string \<rightharpoonup> letter_module) \<Rightarrow> point list list \<Rightarrow> string list \<Rightarrow> response" where
  "frame_response mods multi_hand_landmarks multi_handedness =
     (case (if multi_hand_landmarks \<noteq> [] \<and> multi_handedness \<noteq> []
            then check_hands mods (zip multi_hand_landmarks multi_handedness)
            else Inr '''') of
        Inl e \<Rightarrow> \<lparr>translation = '''', status = ''error''\<rparr>
      | Inr t \<Rightarrow> \<lparr>translation = t, status = ''success''\<rparr>)"

section \<open>The object store\<close>

text \<open>
  Landmarks are objects: a detector receives a list of references and could assign
  to the attributes of the objects behind them. To state what a call does to its
  input, the detectors are given once more on a store of \<open>Point\<close> objects. A reference
  is a position in the store; the constructor call appends the new object; Python
  never frees an object that is still referenced. Reading an attribute looks the
  object up. No detector contains an attribute assignment, so the only store
  operation besides reading is the constructor call.
\<close>

type_synonym ref = nat

type_synonym store = "point list"

definition new_Point :: "store \<Rightarrow> real \<Rightarrow> real \<Rightarrow> real \<Rightarrow> store \<times> ref" where
  "new_Point h a b c = (h @ [Point a b c], length h)"

text \<open>The landmark values that a list of references denotes.\<close>

definition deref :: "store \<Rightarrow> ref list \<Rightarrow> point list" where
  "deref h refs = map (\<lambda>r. h ! r) refs"

text \<open>
  The mirroring loop of the left-hand modules C and F (and the list comprehension of
  D): for each landmark, a new \<open>Point(1 - lm.x, lm.y, lm.z)\<close> is appended to the new
  list.
\<close>

fun mirror_loop :: "store \<Rightarrow> ref list \<Rightarrow> ref list \<Rightarrow> store \<times> ref list" where
  "mirror_loop h mirrored_landmarks [] = (h, mirrored_landmarks)"
| "mirror_loop h mirrored_landmarks (lm # rest) =
     (case new_Point h (1 - p_x (h ! lm)) (p_y (h ! lm)) (p_z (h ! lm)) of
        (h', r) \<Rightarrow> mirror_loop h' (mirrored_landmarks @ [r]) rest)"

type_synonym store_detector = "store \<Rightarrow> ref list option \<Rightarrow> store \<times> (py_error + pyval)"

definition as_Bool :: "py_error + bool \<Rightarrow> py_error + pyval" where
  "as_Bool res = (case res of Inl e \<Rightarrow> Inl e | Inr b \<Rightarrow> Inr (Bool b))"

text \<open>A detector that only reads its landmarks: the A, B and right-hand D and F detectors.\<close>

definition reads_only :: "detector \<Rightarrow> store_detector" where
  "reads_only det h arg = (h, det (map_option (deref h) arg))"

definition C_detect_left_hand_store :: store_detector where
  "C_detect_left_hand_store h arg =
     (case arg of
        None \<Rightarrow> (h, Inr (Bool False))
      | Some landmarks \<Rightarrow>
          if landmarks = [] \<or> length landmarks < 21 then (h, Inr (Bool False))
          else
            case mirror_loop h [] landmarks of
              (h', mirrored_landmarks) \<Rightarrow>
                (h', as_Bool (C_detect_c_shape_internal (deref h' mirrored_landmarks))))"

definition D_detect_left_hand_store :: store_detector where
  "D_detect_left_hand_store h arg =
     (case arg of
        None \<Rightarrow> (h, Inr (Bool False))
      | Some landmarks \<Rightarrow>
          if landmarks = [] \<or> length landmarks < 21 then (h, Inr (Bool False))
          else
            case mirror_loop h [] landmarks of
              (h', mirrored) \<Rightarrow>
                (h', as_Bool (D_detect_d_internal (deref h' mirrored))))"

definition F_detect_left_hand_f_real_camera_store :: store_detector where
  "F_detect_left_hand_f_real_camera_store h arg =
     (case arg of
        None \<Rightarrow> (h, Inr (Bool False))
      | Some landmarks \<Rightarrow>
          if landmarks = [] \<or> length landmarks < 21 then (h, Inr (Bool False))
          else
            case mirror_loop h [] landmarks of
              (h', mirrored_landmarks) \<Rightarrow>
                (h', as_Bool (F_detect_f_real_camera_internal (deref h' mirrored_landmarks))))"

text \<open>
  The left-hand E detector builds one temporary \<open>Point\<close>, the mean of the four
  fingertips, once the guard has passed.
\<close>

definition E_detect_left_hand_store :: store_detector where
  "E_detect_left_hand_store h arg =
     (case arg of
        None \<Rightarrow> (h, Inr (Bool False))
      | Some landmarks \<Rightarrow>
          if landmarks = [] \<or> length landmarks < 21 then (h, Inr (Bool False))
          else
            let finger_tips = deref h [landmarks ! 8, landmarks ! 12, landmarks ! 16, landmarks ! 20]
            in case new_Point h (avg_finger_x finger_tips) (avg_finger_y finger_tips) 0 of
                 (h', r) \<Rightarrow> (h', as_Bool (E_detect_left_hand (Some (deref h landmarks)))))"

text \<open>The detectors of all letter modules among the sources.\<close>

definition store_detectors :: "store_detector list" where
  "store_detectors =
     [reads_only (returns_str A_detect_left_hand),
      reads_only (returns_str A_detect_right_hand),
      reads_only (returns_str B_detect_right_hand),
      C_detect_left_hand_store,
      D_detect_left_hand_store,
      reads_only (returns_bool D_detect_right_hand),
      E_detect_left_hand_store,
      F_detect_left_hand_f_real_camera_store,
      reads_only (returns_bool F_detect_right_hand)]"

section \<open>Transformations of a landmark list\<close>

text \<open>
  The reflection that the left-hand modules C, D and F apply, and the scaling of the
  \<open>x\<close> and \<open>y\<close> coordinates about the wrist (landmark 0) by a factor \<open>k\<close>.
\<close>

definition mirror :: "point list \<Rightarrow> point list" where
  "mirror L = map (\<lambda>lm. Point (1 - p_x lm) (p_y lm) (p_z lm)) L"

definition scale_about_wrist :: "real \<Rightarrow> point list \<Rightarrow> point list" where
  "scale_about_wrist k L =
     (case L of
        [] \<Rightarrow> []
      | wrist # rest \<Rightarrow>
          map (\<lambda>p. Point (p_x wrist + k * (p_x p - p_x wrist))
                         (p_y wrist + k * (p_y p - p_y wrist)) (p_z p)) L)"

section \<open>Sample poses\<close>

text \<open>
  A right-hand fist with the thumb out: every fingertip lies below its middle joint
  but above its base joint.
\<close>

definition pose_fist :: "point list" where
  "pose_fist =
     [Point 0.5 0.9 0,
      Point 0.56 0.85 0, Point 0.6 0.8 0, Point 0.62 0.74 0, Point 0.66 0.7 0,
      Point 0.56 0.7 0, Point 0.56 0.55 0, Point 0.56 0.6 0, Point 0.56 0.65 0,
      Point 0.52 0.7 0, Point 0.52 0.54 0, Point 0.52 0.6 0, Point 0.52 0.65 0,
      Point 0.48 0.7 0, Point 0.48 0.55 0, Point 0.48 0.6 0, Point 0.48 0.65 0,
      Point 0.44 0.71 0, Point 0.44 0.58 0, Point 0.44 0.62 0, Point 0.44 0.66 0]"

text \<open>
  A right hand with the palm to the camera, four fingers up and the thumb folded
  across the palm, 0.06 below the index base.
\<close>

definition pose_flat :: "point list" where
  "pose_flat =
     [Point 0.5 0.6 0,
      Point 0.52 0.58 0, Point 0.56 0.56 0, Point 0.5 0.53 0, Point 0.47 0.51 0,
      Point 0.45 0.45 0, Point 0.45 0.42 0, Point 0.45 0.38 0, Point 0.45 0.35 0,
      Point 0.48 0.44 0, Point 0.48 0.4 0, Point 0.48 0.36 0, Point 0.48 0.32 0,
      Point 0.51 0.45 0, Point 0.51 0.41 0, Point 0.51 0.37 0, Point 0.51 0.34 0,
      Point 0.54 0.47 0, Point 0.54 0.44 0, Point 0.54 0.41 0, Point 0.54 0.38 0]"

text \<open>
  A right hand on which the A rule and the B rule both hold: the fingertips lie
  between their middle and base joints, the thumb tip lies beside the index base.
\<close>

definition pose_tie :: "point list" where
  "pose_tie =
     [Point 0.5 0.9 0,
      Point 0.54 0.85 0, Point 0.56 0.8 0, Point 0.46 0.75 0, Point 0.47 0.72 0,
      Point 0.44 0.7 0, Point 0.44 0.55 0, Point 0.44 0.6 0, Point 0.44 0.65 0,
      Point 0.48 0.7 0, Point 0.48 0.54 0, Point 0.48 0.6 0, Point 0.48 0.65 0,
      Point 0.52 0.7 0, Point 0.52 0.55 0, Point 0.52 0.6 0, Point 0.52 0.65 0,
      Point 0.56 0.71 0, Point 0.56 0.58 0, Point 0.56 0.62 0, Point 0.56 0.66 0]"

text \<open>A stand-in for a detector that is not among the sources: it never matches.\<close>

definition never_matches :: detector where
  "never_matches arg = Inr (Bool False)"

section \<open>Basic facts\<close>

lemma bind_err_Inl [simp]: "bind_err (Inl e) f = Inl e"
  by (simp add: bind_err_def)

lemma bind_err_Inr [simp]: "bind_err (Inr v) f = f v"
  by (simp add: bind_err_def)

lemma getitem_in_range [simp]: "i < length xs \<Longrightarrow> getitem xs i = Inr (xs ! i)"
  by (simp add: getitem_def)

lemma getitem_out_of_range [simp]: "length xs \<le> i \<Longrightarrow> getitem xs i = Inl IndexError"
  by (simp add: getitem_def)

lemma subscript_None [simp]: "subscript None i = Inl TypeError"
  by (simp add: subscript_def)

lemma subscript_Some [simp]: "subscript (Some xs) i = getitem xs i"
  by (simp add: subscript_def)

lemma point_sel [simp]:
  "p_x (Point a b c) = a" "p_y (Point a b c) = b" "p_z (Point a b c) = c"
  by (simp_all add: Point_def)

lemmas B_index_defs = WRIST_def THUMB_IP_def THUMB_TIP_def INDEX_MCP_def INDEX_TIP_def
  MIDDLE_MCP_def MIDDLE_TIP_def RING_MCP_def RING_TIP_def PINKY_MCP_def PINKY_TIP_def

lemma length_mirror [simp]: "length (mirror L) = length L"
  by (simp add: mirror_def)

lemma nth_mirror:
  "i < length L \<Longrightarrow> mirror L ! i = Point (1 - p_x (L ! i)) (p_y (L ! i)) (p_z (L ! i))"
  by (simp add: mirror_def)

lemma length_pose_flat: "length pose_flat = 21"
  by (simp add: pose_flat_def)

lemma length_pose_fist: "length pose_fist = 21"
  by (simp add: pose_fist_def)

lemma norm3_vec: "norm3 (vec b a) = distance b a"
  by (simp add: norm3_def vec_def distance_def power2_commute)

lemma B_pose_flat: "B_detect_right_hand (Some pose_flat) = Inr ''B''"
  by (simp add: B_detect_right_hand_def detect_right_hand_b_gesture_def
      is_right_hand_palm_visible_def are_four_fingers_extended_def
      is_thumb_folded_against_palm_def is_thumb_aligned_horizontally_def and_err_def
      cross_product_def B_index_defs pose_flat_def power2_eq_square)

lemma getitem_take: "i < 21 \<Longrightarrow> 21 \<le> length L \<Longrightarrow> getitem (take 21 L) i = getitem L i"
  by (simp add: getitem_def)

lemma distance_nonneg: "0 \<le> distance a b"
  by (simp add: distance_def)

lemma scaled_sqrt_le:
  assumes "0 \<le> c" and "c\<^sup>2 * a \<le> b"
  shows "c * sqrt a \<le> sqrt b"
proof -
  have "c * sqrt a = sqrt (c\<^sup>2 * a)"
    using assms(1) by (simp add: real_sqrt_mult)
  also have "\<dots> \<le> sqrt b"
    using assms(2) by simp
  finally show ?thesis .
qed

lemma length_pose_tie: "length pose_tie = 21"
  by (simp add: pose_tie_def)

lemma convert_pose_tie: "map (\<lambda>lm. Point (p_x lm) (p_y lm) 0) pose_tie = pose_tie"
  by (simp add: pose_tie_def)

lemma A_pose_tie: "A_detect_right_hand (Some pose_tie) = Inr ''A''"
  by (simp add: A_detect_right_hand_def pose_tie_def)

lemma B_pose_tie: "B_detect_right_hand (Some pose_tie) = Inr ''B''"
  by (simp add: B_detect_right_hand_def detect_right_hand_b_gesture_def
      is_right_hand_palm_visible_def are_four_fingers_extended_def
      is_thumb_folded_against_palm_def is_thumb_aligned_horizontally_def and_err_def
      cross_product_def B_index_defs pose_tie_def power2_eq_square)

lemma foldl_append_map: "foldl (\<lambda>acc lm. acc @ [f lm]) acc0 xs = acc0 @ map f xs"
  by (induction xs arbitrary: acc0) simp_all

subsection \<open>Which detectors return on which inputs\<close>

lemma A_right_21:
  "21 \<le> length L \<Longrightarrow> A_detect_right_hand (Some L) =
     Inr (if (p_y (L ! 8) > p_y (L ! 6) \<and> p_y (L ! 12) > p_y (L ! 10)
              \<and> p_y (L ! 16) > p_y (L ! 14) \<and> p_y (L ! 20) > p_y (L ! 18))
             \<and> p_x (L ! 4) > p_x (L ! 3) then ''A'' else '''')"
  by (simp add: A_detect_right_hand_def)

lemma A_left_21:
  "21 \<le> length L \<Longrightarrow> A_detect_left_hand (Some L) =
     Inr (if (p_y (L ! 8) > p_y (L ! 5) \<and> p_y (L ! 12) > p_y (L ! 9)
              \<and> p_y (L ! 16) > p_y (L ! 13) \<and> p_y (L ! 20) > p_y (L ! 17))
             \<and> p_x (L ! 4) < p_x (L ! 2) then ''A'' else '''')"
  by (simp add: A_detect_left_hand_def)

lemma A_right_returns: "21 \<le> length L \<Longrightarrow> \<not> isl (A_detect_right_hand (Some L))"
  by (simp add: A_right_21)

lemma A_left_returns: "21 \<le> length L \<Longrightarrow> \<not> isl (A_detect_left_hand (Some L))"
  by (simp add: A_left_21)

lemma B_right_returns: "\<not> isl (B_detect_right_hand (Some L))"
  by (simp add: B_detect_right_hand_def detect_right_hand_b_gesture_def
      is_right_hand_palm_visible_def are_four_fingers_extended_def
      is_thumb_folded_against_palm_def is_thumb_aligned_horizontally_def and_err_def
      B_index_defs Let_def)

lemma C_internal_returns:
  assumes "21 \<le> length L"
  shows "\<not> isl (C_detect_c_shape_internal L)"
proof -
  have "0 < length L"
    using assms by auto
  with assms show ?thesis
    by (simp add: C_detect_c_shape_internal_def Let_def)
qed

lemma C_left_returns: "\<not> isl (C_detect_left_hand arg)"
proof (cases arg)
  case None
  then show ?thesis by (simp add: C_detect_left_hand_def)
next
  case (Some L)
  show ?thesis
  proof (cases "L = [] \<or> length L < 21")
    case True
    with Some show ?thesis by (auto simp add: C_detect_left_hand_def)
  next
    case False
    then have "21 \<le> length (map (\<lambda>lm. Point (1 - p_x lm) (p_y lm) (p_z lm)) L)" by simp
    from C_internal_returns [OF this] Some False show ?thesis
      by (simp add: C_detect_left_hand_def foldl_append_map)
  qed
qed

lemma returns_str_isl [simp]: "isl (returns_str f arg) = isl (f arg)"
  by (simp add: returns_str_def split: sum.splits)

lemma returns_bool_isl [simp]: "isl (returns_bool f arg) = isl (f arg)"
  by (simp add: returns_bool_def split: sum.splits)

lemma never_matches_returns: "\<not> isl (never_matches arg)"
  by (simp add: never_matches_def)

subsection \<open>The loop over the letters\<close>

lemma check_letters_find:
  "\<forall>l \<in> set ls. \<not> isl (detected mods lms label l) \<Longrightarrow>
   check_letters mods lms label ls =
     Inr (case find (\<lambda>l. case detected mods lms label l of Inl e \<Rightarrow> False | Inr d \<Rightarrow> truthy d) ls of
            None \<Rightarrow> '''' | Some l \<Rightarrow> l)"
proof (induction ls)
  case Nil
  show ?case by simp
next
  case (Cons a ls)
  then obtain d where d: "detected mods lms label a = Inr d"
    by (cases "detected mods lms label a") auto
  with Cons show ?case by simp
qed

lemma detected_returns:
  assumes "length lms = 21"
    and "\<not> isl (B_left (Some (map (\<lambda>lm. Point (p_x lm) (p_y lm) 0) lms)))"
    and "\<not> isl (C_right (Some (map (\<lambda>lm. Point (p_x lm) (p_y lm) 0) lms)))"
    and "l \<in> set LETTERS"
  shows "\<not> isl (detected (letter_modules B_left C_right) lms label l)"
  using assms
  by (auto simp add: LETTERS_def detected_def letter_modules_def convert_mediapipe_to_points_def
      A_right_returns A_left_returns B_right_returns C_left_returns)

lemma convert_pose_fist: "map (\<lambda>lm. Point (p_x lm) (p_y lm) 0) pose_fist = pose_fist"
  by (simp add: pose_fist_def)

lemma A_pose_fist: "A_detect_right_hand (Some pose_fist) = Inr ''A''"
  by (simp add: A_detect_right_hand_def pose_fist_def)

lemma detected_not_Left:
  "label \<noteq> ''Left'' \<Longrightarrow> detected mods lms label letter = detected mods lms ''Right'' letter"
  by (cases "mods letter") (simp_all add: detected_def convert_mediapipe_to_points_def)

subsection \<open>Reflection\<close>

lemma mirror_twice: "map (\<lambda>lm. Point (1 - p_x lm) (p_y lm) (p_z lm)) (mirror L) = L"
  unfolding mirror_def map_map
  by (rule map_idI) (simp add: mirror_def Point_def o_def)

lemma D_left_on_mirror:
  assumes "21 \<le> length L"
  shows "D_detect_left_hand (Some (mirror L)) = D_detect_right_hand (Some L)"
proof -
  have ne: "L \<noteq> []" "mirror L \<noteq> []" "\<not> length L < 21"
    using assms by (auto simp add: mirror_def)
  then show ?thesis
    by (simp add: D_detect_left_hand_def D_detect_right_hand_def D_detect_d_internal_def
        mirror_twice)
qed

subsection \<open>Scaling about the wrist\<close>

lemma convert_pose_flat: "map (\<lambda>lm. Point (p_x lm) (p_y lm) 0) pose_flat = pose_flat"
  by (simp add: pose_flat_def)

lemma A_pose_flat: "A_detect_right_hand (Some pose_flat) = Inr ''''"
  by (simp add: A_detect_right_hand_def pose_flat_def)

lemma scaled_pose_flat:
  "scale_about_wrist 2 pose_flat =
     [Point 0.5 0.6 0,
      Point 0.54 0.56 0, Point 0.62 0.52 0, Point 0.5 0.46 0, Point 0.44 0.42 0,
      Point 0.4 0.3 0, Point 0.4 0.24 0, Point 0.4 0.16 0, Point 0.4 0.1 0,
      Point 0.46 0.28 0, Point 0.46 0.2 0, Point 0.46 0.12 0, Point 0.46 0.04 0,
      Point 0.52 0.3 0, Point 0.52 0.22 0, Point 0.52 0.14 0, Point 0.52 0.08 0,
      Point 0.58 0.34 0, Point 0.58 0.28 0, Point 0.58 0.22 0, Point 0.58 0.16 0]"
  by (simp add: scale_about_wrist_def pose_flat_def Point_def)

lemma B_scaled_pose_flat: "B_detect_right_hand (Some (scale_about_wrist 2 pose_flat)) = Inr ''''"
  unfolding scaled_pose_flat
  by (simp add: B_detect_right_hand_def detect_right_hand_b_gesture_def
      is_right_hand_palm_visible_def are_four_fingers_extended_def
      is_thumb_folded_against_palm_def is_thumb_aligned_horizontally_def and_err_def
      cross_product_def B_index_defs power2_eq_square)

lemma A_scaled_pose_flat: "A_detect_right_hand (Some (scale_about_wrist 2 pose_flat)) = Inr ''''"
  unfolding scaled_pose_flat
  by (simp add: A_detect_right_hand_def)

lemma convert_scaled_pose_flat:
  "map (\<lambda>lm. Point (p_x lm) (p_y lm) 0) (scale_about_wrist 2 pose_flat) = scale_about_wrist 2 pose_flat"
  unfolding scaled_pose_flat by simp

lemma length_scale [simp]: "length (scale_about_wrist k L) = length L"
  by (cases L) (simp_all add: scale_about_wrist_def)

lemma nth_scale:
  assumes "i < length L"
  shows "scale_about_wrist k L ! i =
     Point (p_x (L ! 0) + k * (p_x (L ! i) - p_x (L ! 0)))
           (p_y (L ! 0) + k * (p_y (L ! i) - p_y (L ! 0))) (p_z (L ! i))"
proof -
  from assms obtain w rest where L: "L = w # rest"
    by (cases L) auto
  have "scale_about_wrist k L =
          map (\<lambda>p. Point (p_x (L ! 0) + k * (p_x p - p_x (L ! 0)))
                         (p_y (L ! 0) + k * (p_y p - p_y (L ! 0))) (p_z p)) L"
    unfolding L scale_about_wrist_def by simp
  then show ?thesis
    by (simp only: nth_map [OF assms])
qed

lemma scaled_less:
  fixes k :: real
  assumes "0 < k"
  shows "(w + k * (a - w) < w + k * (b - w)) = (a < b)"
  using assms by simp

lemma scaled_diff:
  fixes k :: real
  shows "(w + k * (a - w)) - (w + k * (b - w)) = k * (a - b)"
  by (simp add: algebra_simps)

lemma scaled_sq_less:
  fixes k :: real
  assumes "0 < k"
  shows "((k * a)\<^sup>2 + (k * b)\<^sup>2 < (k * c)\<^sup>2 + (k * d)\<^sup>2) = (a\<^sup>2 + b\<^sup>2 < c\<^sup>2 + d\<^sup>2)"
proof -
  have "(k * a)\<^sup>2 + (k * b)\<^sup>2 = k\<^sup>2 * (a\<^sup>2 + b\<^sup>2)"
    and "(k * c)\<^sup>2 + (k * d)\<^sup>2 = k\<^sup>2 * (c\<^sup>2 + d\<^sup>2)"
    by (simp_all add: power_mult_distrib algebra_simps)
  moreover have "0 < k\<^sup>2"
    using assms by simp
  ultimately show ?thesis
    by (simp only: mult_less_cancel_left_pos)
qed

lemma A_right_short: "length L < 21 \<Longrightarrow> A_detect_right_hand (Some L) = Inl IndexError"
  by (simp add: A_detect_right_hand_def getitem_def)

lemma A_left_short: "length L < 21 \<Longrightarrow> A_detect_left_hand (Some L) = Inl IndexError"
  by (simp add: A_detect_left_hand_def getitem_def)

lemma A_right_scale:
  assumes "0 < k"
  shows "A_detect_right_hand (Some (scale_about_wrist k L)) = A_detect_right_hand (Some L)"
proof (cases "length L < 21")
  case True
  then show ?thesis by (simp add: A_right_short)
next
  case False
  then have "21 \<le> length L" by simp
  then show ?thesis
    using assms by (simp add: A_right_21 nth_scale)
qed

lemma A_left_scale:
  assumes "0 < k"
  shows "A_detect_left_hand (Some (scale_about_wrist k L)) = A_detect_left_hand (Some L)"
proof (cases "length L < 21")
  case True
  then show ?thesis by (simp add: A_left_short)
next
  case False
  then have "21 \<le> length L" by simp
  then show ?thesis
    using assms by (simp add: A_left_21 nth_scale)
qed

lemma scaled_wrist_less:
  fixes k :: real
  assumes "0 < k"
  shows "(w < w + k * (b - w)) = (w < b)" and "(w + k * (a - w) < w) = (a < w)"
  using assms by (simp_all add: zero_less_mult_iff mult_less_0_iff)

lemma palm_visible_scale:
  assumes "0 < k"
  shows "is_right_hand_palm_visible (scale_about_wrist k L) = is_right_hand_palm_visible L"
proof (cases "18 \<le> length L")
  case False
  then show ?thesis
    by (simp add: is_right_hand_palm_visible_def B_index_defs getitem_def)
next
  case True
  then have r: "0 < length L" "5 < length L" "17 < length L"
    by auto
  have "cross_product (scale_about_wrist k L ! 5) (scale_about_wrist k L ! 0)
          (scale_about_wrist k L ! 17)
        = k\<^sup>2 * cross_product (L ! 5) (L ! 0) (L ! 17)"
    using r by (simp add: nth_scale cross_product_def power2_eq_square algebra_simps)
  moreover have "0 < k\<^sup>2"
    using assms by simp
  ultimately have "(0 < cross_product (scale_about_wrist k L ! 5) (scale_about_wrist k L ! 0)
          (scale_about_wrist k L ! 17)) = (0 < cross_product (L ! 5) (L ! 0) (L ! 17))"
    by (simp add: zero_less_mult_iff)
  with r show ?thesis
    by (simp add: is_right_hand_palm_visible_def B_index_defs)
qed

lemma four_fingers_scale:
  assumes "0 < k"
  shows "are_four_fingers_extended (scale_about_wrist k L) = are_four_fingers_extended L"
proof (cases "21 \<le> length L")
  case False
  then show ?thesis
    by (simp add: are_four_fingers_extended_def B_index_defs getitem_def)
next
  case True
  then have "0 < length L" by auto
  with True assms show ?thesis
    by (simp add: are_four_fingers_extended_def B_index_defs nth_scale)
qed

lemma thumb_folded_scale:
  assumes "0 < k"
  shows "is_thumb_folded_against_palm (scale_about_wrist k L) = is_thumb_folded_against_palm L"
proof (cases "6 \<le> length L")
  case False
  then show ?thesis
    by (simp add: is_thumb_folded_against_palm_def B_index_defs getitem_def)
next
  case True
  then have r: "0 < length L" "2 < length L" "4 < length L" "5 < length L"
    by auto
  define S where "S = scale_about_wrist k L"
  have d: "((p_x (S ! 4) - p_x (S ! 5))\<^sup>2 + (p_y (S ! 4) - p_y (S ! 5))\<^sup>2
             < (p_x (S ! 4) - p_x (S ! 2))\<^sup>2 + (p_y (S ! 4) - p_y (S ! 2))\<^sup>2)
           = ((p_x (L ! 4) - p_x (L ! 5))\<^sup>2 + (p_y (L ! 4) - p_y (L ! 5))\<^sup>2
             < (p_x (L ! 4) - p_x (L ! 2))\<^sup>2 + (p_y (L ! 4) - p_y (L ! 2))\<^sup>2)"
    unfolding S_def
    by (simp only: nth_scale [OF r(2)] nth_scale [OF r(3)] nth_scale [OF r(4)] point_sel
        scaled_diff scaled_sq_less [OF assms])
  have c: "(p_x (S ! 0) < p_x (S ! 5)) = (p_x (L ! 0) < p_x (L ! 5))"
    "(p_x (S ! 0) < p_x (S ! 4)) = (p_x (L ! 0) < p_x (L ! 4))"
    "(p_x (S ! 4) < p_x (S ! 5)) = (p_x (L ! 4) < p_x (L ! 5))"
    "(p_x (S ! 5) < p_x (S ! 4)) = (p_x (L ! 5) < p_x (L ! 4))"
    "(p_x (S ! 4) < p_x (S ! 0)) = (p_x (L ! 4) < p_x (L ! 0))"
    unfolding S_def
    by (simp_all only: nth_scale [OF r(1)] nth_scale [OF r(3)] nth_scale [OF r(4)] point_sel
        scaled_less [OF assms])
  have "length S = length L"
    by (simp add: S_def)
  with r d c have "is_thumb_folded_against_palm S = is_thumb_folded_against_palm L"
    by (simp add: is_thumb_folded_against_palm_def B_index_defs Let_def)
  then show ?thesis
    by (simp add: S_def)
qed

lemma thumb_aligned_scale:
  assumes "0 < k"
  shows "is_thumb_aligned_horizontally \<lparr>thumb_alignment_threshold = t\<rparr> (scale_about_wrist k L)
         = is_thumb_aligned_horizontally \<lparr>thumb_alignment_threshold = t / k\<rparr> L"
proof (cases "6 \<le> length L")
  case False
  then show ?thesis
    by (simp add: is_thumb_aligned_horizontally_def B_index_defs getitem_def)
next
  case True
  then have r: "4 < length L" "5 < length L"
    by auto
  define S where "S = scale_about_wrist k L"
  have "p_y (S ! 4) - p_y (S ! 5) = k * (p_y (L ! 4) - p_y (L ! 5))"
    unfolding S_def by (simp only: nth_scale [OF r(1)] nth_scale [OF r(2)] point_sel scaled_diff)
  then have "\<bar>p_y (S ! 4) - p_y (S ! 5)\<bar> = k * \<bar>p_y (L ! 4) - p_y (L ! 5)\<bar>"
    using assms by (simp add: abs_mult)
  then have a: "(\<bar>p_y (S ! 4) - p_y (S ! 5)\<bar> < t) = (\<bar>p_y (L ! 4) - p_y (L ! 5)\<bar> < t / k)"
    using assms by (simp add: pos_less_divide_eq mult.commute)
  have "length S = length L"
    by (simp add: S_def)
  with r a have "is_thumb_aligned_horizontally \<lparr>thumb_alignment_threshold = t\<rparr> S
         = is_thumb_aligned_horizontally \<lparr>thumb_alignment_threshold = t / k\<rparr> L"
    by (simp add: is_thumb_aligned_horizontally_def B_index_defs Let_def)
  then show ?thesis
    by (simp add: S_def)
qed

subsection \<open>The object store\<close>

lemma mirror_loop_extends: "\<exists>ext. fst (mirror_loop h acc lms) = h @ ext"
proof (induction lms arbitrary: h acc)
  case Nil
  show ?case by simp
next
  case (Cons lm rest)
  define p where "p = Point (1 - p_x (h ! lm)) (p_y (h ! lm)) (p_z (h ! lm))"
  from Cons [of "h @ [p]" "acc @ [length h]"] obtain ext
    where "fst (mirror_loop (h @ [p]) (acc @ [length h]) rest) = (h @ [p]) @ ext"
    by blast
  then have "fst (mirror_loop h acc (lm # rest)) = h @ (p # ext)"
    by (simp add: new_Point_def p_def)
  then show ?case by blast
qed

lemma deref_append: "\<forall>r \<in> set refs. r < length h \<Longrightarrow> deref (h @ ext) refs = deref h refs"
  by (simp add: deref_def nth_append)

lemma deref_fresh: "deref (h @ xs) [length h ..< length h + length xs] = xs"
  by (rule nth_equalityI) (simp_all add: deref_def)

lemma mirror_loop_store:
  "\<forall>r \<in> set lms. r < length h \<Longrightarrow>
   mirror_loop h acc lms =
     (h @ mirror (deref h lms), acc @ [length h ..< length h + length lms])"
proof (induction lms arbitrary: h acc)
  case Nil
  show ?case by (simp add: mirror_def deref_def)
next
  case (Cons lm rest)
  define p where "p = Point (1 - p_x (h ! lm)) (p_y (h ! lm)) (p_z (h ! lm))"
  have valid: "\<forall>r \<in> set rest. r < length (h @ [p])" "\<forall>r \<in> set rest. r < length h"
    using Cons.prems by auto
  have "mirror_loop h acc (lm # rest) = mirror_loop (h @ [p]) (acc @ [length h]) rest"
    by (simp add: new_Point_def p_def)
  also have "\<dots> = ((h @ [p]) @ mirror (deref (h @ [p]) rest),
                     (acc @ [length h]) @ [length (h @ [p]) ..< length (h @ [p]) + length rest])"
    by (rule Cons.IH [OF valid(1)])
  also have "deref (h @ [p]) rest = deref h rest"
    by (rule deref_append [OF valid(2)])
  also have "(h @ [p]) @ mirror (deref h rest) = h @ mirror (deref h (lm # rest))"
    by (simp add: mirror_def deref_def p_def)
  also have "(acc @ [length h]) @ [length (h @ [p]) ..< length (h @ [p]) + length rest]
             = acc @ [length h ..< length h + length (lm # rest)]"
    by (simp add: upt_conv_Cons del: upt_Suc)
  finally show ?case .
qed

lemma length_deref [simp]: "length (deref h refs) = length refs"
  by (simp add: deref_def)

lemma deref_mirrored:
  "deref (h @ mirror (deref h lms)) [length h ..< length h + length lms] = mirror (deref h lms)"
  using deref_fresh [of h "mirror (deref h lms)"] by simp

lemma mirror_loop_result_extends:
  assumes "mirror_loop h acc lms = (h', ms)"
  shows "\<exists>ext. h' = h @ ext"
  using mirror_loop_extends [of h acc lms] assms by simp

lemma reads_only_extends: "\<exists>ext. fst (reads_only d h arg) = h @ ext"
  by (simp add: reads_only_def)

lemma C_store_extends: "\<exists>ext. fst (C_detect_left_hand_store h arg) = h @ ext"
  by (auto simp add: C_detect_left_hand_store_def split: option.splits prod.splits
      dest: mirror_loop_result_extends)

lemma D_store_extends: "\<exists>ext. fst (D_detect_left_hand_store h arg) = h @ ext"
  by (auto simp add: D_detect_left_hand_store_def split: option.splits prod.splits
      dest: mirror_loop_result_extends)

lemma F_store_extends: "\<exists>ext. fst (F_detect_left_hand_f_real_camera_store h arg) = h @ ext"
  by (auto simp add: F_detect_left_hand_f_real_camera_store_def
      split: option.splits prod.splits dest: mirror_loop_result_extends)

lemma E_store_extends: "\<exists>ext. fst (E_detect_left_hand_store h arg) = h @ ext"
  by (auto simp add: E_detect_left_hand_store_def new_Point_def Let_def split: option.splits)

lemma store_detector_extends:
  assumes "det \<in> set store_detectors"
  shows "\<exists>ext. fst (det h arg) = h @ ext"
  using assms reads_only_extends C_store_extends D_store_extends E_store_extends F_store_extends
  by (auto simp add: store_detectors_def)

lemma returns_bool_as_Bool: "returns_bool f arg = as_Bool (f arg)"
  by (simp add: returns_bool_def as_Bool_def)

lemma C_store_refines:
  assumes "21 \<le> length lms" and "\<forall>a \<in> set lms. a < length h"
  shows "C_detect_left_hand_store h (Some lms) =
           (h @ mirror (deref h lms), returns_bool C_detect_left_hand (Some (deref h lms)))"
proof -
  have ne: "lms \<noteq> []" "\<not> length lms < 21" "deref h lms \<noteq> []"
    using assms(1) by (auto simp add: deref_def)
  have "C_detect_left_hand (Some (deref h lms)) = C_detect_c_shape_internal (mirror (deref h lms))"
    using ne by (simp add: C_detect_left_hand_def foldl_append_map mirror_def)
  with ne show ?thesis
    by (simp add: C_detect_left_hand_store_def mirror_loop_store [OF assms(2)] deref_mirrored
        returns_bool_as_Bool)
qed

lemma D_store_refines:
  assumes "21 \<le> length lms" and "\<forall>a \<in> set lms. a < length h"
  shows "D_detect_left_hand_store h (Some lms) =
           (h @ mirror (deref h lms), returns_bool D_detect_left_hand (Some (deref h lms)))"
proof -
  have ne: "lms \<noteq> []" "\<not> length lms < 21" "deref h lms \<noteq> []"
    using assms(1) by (auto simp add: deref_def)
  have "D_detect_left_hand (Some (deref h lms)) = D_detect_d_internal (mirror (deref h lms))"
    using ne by (simp add: D_detect_left_hand_def mirror_def)
  with ne show ?thesis
    by (simp add: D_detect_left_hand_store_def mirror_loop_store [OF assms(2)] deref_mirrored
        returns_bool_as_Bool)
qed

lemma F_store_refines:
  assumes "21 \<le> length lms" and "\<forall>a \<in> set lms. a < length h"
  shows "F_detect_left_hand_f_real_camera_store h (Some lms) =
           (h @ mirror (deref h lms),
            returns_bool F_detect_left_hand_f_real_camera (Some (deref h lms)))"
proof -
  have ne: "lms \<noteq> []" "\<not> length lms < 21" "deref h lms \<noteq> []"
    using assms(1) by (auto simp add: deref_def)
  have "F_detect_left_hand_f_real_camera (Some (deref h lms))
        = F_detect_f_real_camera_internal (mirror (deref h lms))"
    using ne by (simp add: F_detect_left_hand_f_real_camera_def foldl_append_map mirror_def)
  with ne show ?thesis
    by (simp add: F_detect_left_hand_f_real_camera_store_def mirror_loop_store [OF assms(2)]
        deref_mirrored returns_bool_as_Bool)
qed

lemma deref_all: "deref h [0 ..< length h] = h"
  by (simp add: deref_def map_nth)

subsection \<open>Absent, empty and short inputs of the guarded detectors\<close>

lemma guarded_detectors_degraded_input:
  assumes "arg = None \<or> (\<exists>L. arg = Some L \<and> length L < 21)"
  shows "C_detect_left_hand arg = Inr False" and "D_detect_right_hand arg = Inr False"
    and "D_detect_left_hand arg = Inr False" and "E_detect_left_hand arg = Inr False"
    and "F_detect_right_hand arg = Inr False"
    and "F_detect_left_hand_f_real_camera arg = Inr False"
  using assms
  by (auto simp add: C_detect_left_hand_def D_detect_right_hand_def D_detect_left_hand_def
      E_detect_left_hand_def F_detect_right_hand_def F_detect_left_hand_f_real_camera_def)

lemma B_detect_right_hand_short: "length L \<noteq> 21 \<Longrightarrow> B_detect_right_hand (Some L) = Inr ''''"
  by (simp add: B_detect_right_hand_def detect_right_hand_b_gesture_def)

section \<open>Degraded input\<close>

text \<open>
  Claim C1. Every detector should answer "no match" on an absent, empty or too short
  landmark list and never raise. The detectors of C, D, E and F do (lemma
  \<open>guarded_detectors_degraded_input\<close>), and the B detector does on every list that
  is not of length 21 (lemma \<open>B_detect_right_hand_short\<close>). The A detectors have no guard: on the empty
  list and on a list of 20 landmarks they raise IndexError, and on \<open>None\<close> they
  raise TypeError, as the B detector does at \<open>len(None)\<close>. In the server the
  exception of the A detector ends the processing of the frame with an error reply.
\<close>

theorem A_detectors_raise_on_degraded_input:
  "A_detect_right_hand (Some []) = Inl IndexError
   \<and> A_detect_left_hand (Some []) = Inl IndexError
   \<and> A_detect_right_hand (Some (take 20 pose_fist)) = Inl IndexError
   \<and> A_detect_left_hand (Some (take 20 pose_fist)) = Inl IndexError
   \<and> A_detect_right_hand None = Inl TypeError
   \<and> A_detect_left_hand None = Inl TypeError
   \<and> B_detect_right_hand None = Inl TypeError
   \<and> frame_response (letter_modules never_matches never_matches) [[]] [''Right'']
       = \<lparr>translation = '''', status = ''error''\<rparr>"
  by (simp add: A_right_short A_left_short length_pose_fist B_detect_right_hand_def
      detect_right_hand_b_gesture_def frame_response_def LETTERS_def detected_def
      letter_modules_def convert_mediapipe_to_points_def returns_str_def)
    (simp add: A_detect_right_hand_def A_detect_left_hand_def)

section \<open>The joint angle\<close>

text \<open>
  Claim C6. \<open>angle_deg a b c\<close>, the angle at the vertex \<open>b\<close>, always returns a value,
  and the value lies between 0 and 180 degrees. When one of the rays from \<open>b\<close> to \<open>a\<close>
  and from \<open>b\<close> to \<open>c\<close> is shorter than \<open>1e-8\<close> the value is exactly 180; otherwise
  it is the arccosine, in degrees, of the normalised dot product clamped to
  \<open>[-1, 1]\<close>.
\<close>

theorem angle_deg_total_and_bounded:
  "(\<exists>r. angle_deg a b c = Inr r \<and> 0 \<le> r \<and> r \<le> 180)
   \<and> (distance b a < 1 / 10 ^ 8 \<or> distance b c < 1 / 10 ^ 8 \<longrightarrow> angle_deg a b c = Inr 180)
   \<and> (\<not> (distance b a < 1 / 10 ^ 8 \<or> distance b c < 1 / 10 ^ 8) \<longrightarrow>
        angle_deg a b c =
          Inr (arccos (max (- 1) (min 1 (dot3 (vec b a) (vec b c) / (distance b a * distance b c))))
               * 180 / pi))"
proof (cases "distance b a < 1 / 10 ^ 8 \<or> distance b c < 1 / 10 ^ 8")
  case True
  then have "angle_deg a b c = Inr 180"
    by (simp add: angle_deg_def Let_def norm3_vec)
  with True show ?thesis by simp
next
  case False
  define q where
    "q = max (- 1) (min 1 (dot3 (vec b a) (vec b c) / (distance b a * distance b c)))"
  have q: "- 1 \<le> q" "q \<le> 1"
    by (simp_all add: q_def)
  have val: "angle_deg a b c = Inr (arccos q * 180 / pi)"
    using False q by (simp add: angle_deg_def Let_def py_acos_def degrees_def norm3_vec q_def)
  have lo: "0 \<le> arccos q * 180 / pi"
    using arccos_lbound [OF q] by simp
  have "arccos q \<le> pi"
    using arccos_ubound [OF q] .
  then have hi: "arccos q * 180 / pi \<le> 180"
    by (simp add: field_simps)
  from False val lo hi show ?thesis
    unfolding q_def by simp
qed

text \<open>
  A degenerate ray gives 180 degrees; the angle at the origin between the unit
  vectors of the \<open>x\<close> and \<open>y\<close> axes is 90 degrees.
\<close>

theorem angle_deg_total_and_bounded_witness:
  "angle_deg (Point 0 0 0) (Point 0 0 0) (Point 1 0 0) = Inr 180
   \<and> angle_deg (Point 1 0 0) (Point 0 0 0) (Point 0 1 0) = Inr 90"
  using angle_deg_total_and_bounded [of "Point 0 0 0" "Point 0 0 0" "Point 1 0 0"]
    angle_deg_total_and_bounded [of "Point 1 0 0" "Point 0 0 0" "Point 0 1 0"]
  by (simp add: distance_def vec_def dot3_def)

section \<open>The palm orientation test of the B rule\<close>

text \<open>
  Claim C7. On a list of 21 landmarks the B rule returns the empty string whenever
  the z-component of the cross product of (index base - wrist) and (pinky base -
  wrist) is not strictly positive, whatever the finger and thumb tests say and
  whatever the alignment threshold is.
\<close>

theorem B_palm_not_visible_no_match:
  assumes "length L = 21"
    and "(p_x (L ! 5) - p_x (L ! 0)) * (p_y (L ! 17) - p_y (L ! 0))
         - (p_y (L ! 5) - p_y (L ! 0)) * (p_x (L ! 17) - p_x (L ! 0)) \<le> 0"
  shows "detect_right_hand_b_gesture self (Some L) = Inr ''''
         \<and> B_detect_right_hand (Some L) = Inr ''''"
proof -
  have "is_right_hand_palm_visible L = Inr False"
    using assms by (simp add: is_right_hand_palm_visible_def B_index_defs cross_product_def)
  then show ?thesis
    using assms(1) by (simp add: detect_right_hand_b_gesture_def B_detect_right_hand_def)
qed

text \<open>
  The flat hand is a B; reflected, its cross product is negative and, although the
  finger and thumb tests still pass, the rule returns the empty string.
\<close>

theorem B_palm_not_visible_no_match_witness:
  "B_detect_right_hand (Some pose_flat) = Inr ''B''
   \<and> B_detect_right_hand (Some (mirror pose_flat)) = Inr ''''"
  using B_palm_not_visible_no_match [of "mirror pose_flat" "\<lparr>thumb_alignment_threshold = 0.1\<rparr>"]
    B_pose_flat
  by (simp add: nth_mirror length_pose_flat) (simp add: pose_flat_def)

section \<open>The tip contact test of the F rule\<close>

text \<open>
  Claim C8. On a list of 21 landmarks on which the thumb tip and the index fingertip
  are at least 0.3 palm widths apart (the palm width being the distance from the
  index base to the pinky base), the right-hand F rule returns \<open>False\<close>: its contact
  test asks for less than 0.25 palm widths.
\<close>

theorem F_tips_apart_no_match:
  assumes "length L = 21"
    and "distance (L ! 4) (L ! 8) \<ge> 0.3 * distance (L ! 5) (L ! 17)"
  shows "F_detect_right_hand (Some L) = Inr False"
proof -
  have "0 \<le> distance (L ! 5) (L ! 17)"
    by (rule distance_nonneg)
  with assms(2) have "\<not> distance (L ! 4) (L ! 8) < distance (L ! 5) (L ! 17) * 0.25"
    by simp
  moreover have "L \<noteq> []"
    using assms(1) by auto
  ultimately show ?thesis
    using assms(1) by (simp add: F_detect_right_hand_def Let_def)
qed

text \<open>On the flat hand the two tips are about 1.7 palm widths apart.\<close>

theorem F_tips_apart_no_match_witness:
  "F_detect_right_hand (Some pose_flat) = Inr False"
proof -
  have "0.3 * distance (pose_flat ! 5) (pose_flat ! 17) \<le> distance (pose_flat ! 4) (pose_flat ! 8)"
    unfolding distance_def
    by (rule scaled_sqrt_le) (simp_all add: pose_flat_def power2_eq_square)
  with F_tips_apart_no_match [OF length_pose_flat] show ?thesis
    by simp
qed

section \<open>Lists longer than 21 landmarks\<close>

text \<open>
  Claim C9. On a list of more than 21 landmarks the right-hand B detector returns
  the empty string at its length test, while the right-hand D detector, which only
  asks for at least 21 landmarks and reads the indices 0 to 20, returns what it
  returns on the first 21 landmarks.
\<close>

theorem longer_lists_B_rejects_D_reads_prefix:
  assumes "21 < length L"
  shows "B_detect_right_hand (Some L) = Inr ''''
         \<and> D_detect_right_hand (Some L) = D_detect_right_hand (Some (take 21 L))"
proof -
  have B: "B_detect_right_hand (Some L) = Inr ''''"
    using assms by (simp add: B_detect_right_hand_def detect_right_hand_b_gesture_def)
  have len: "21 \<le> length L" "L \<noteq> []" "take 21 L \<noteq> []"
    using assms by auto
  have D: "D_detect_right_hand (Some L) = D_detect_right_hand (Some (take 21 L))"
    using len assms by (simp add: D_detect_right_hand_def getitem_take)
  from B D show ?thesis by simp
qed

text \<open>The flat hand, a B on its own, followed by a 22nd landmark.\<close>

theorem longer_lists_B_rejects_D_reads_prefix_witness:
  "B_detect_right_hand (Some (pose_flat @ [Point 0 0 0])) = Inr ''''
   \<and> D_detect_right_hand (Some (pose_flat @ [Point 0 0 0]))
       = D_detect_right_hand (Some pose_flat)"
  using longer_lists_B_rejects_D_reads_prefix [of "pose_flat @ [Point 0 0 0]"]
  by (simp add: length_pose_flat)

section \<open>First match in registration order\<close>

text \<open>
  Claim C2. For a set of 21 landmarks and any handedness label, the loop over
  \<open>LETTERS\<close> tries the letters in the order A, B, C and returns the first letter whose
  detector returns a true value, or the empty string when none does; when several
  detectors are true the earliest letter wins. The detectors of the two modules that
  are not among the sources are parameters, assumed to return on this input.
\<close>

theorem classify_first_match_in_order:
  assumes "length lms = 21"
    and "\<not> isl (B_left (Some (map (\<lambda>lm. Point (p_x lm) (p_y lm) 0) lms)))"
    and "\<not> isl (C_right (Some (map (\<lambda>lm. Point (p_x lm) (p_y lm) 0) lms)))"
  shows "LETTERS = [''A'', ''B'', ''C'']
     \<and> check_letters (letter_modules B_left C_right) lms label LETTERS =
         Inr (case find (\<lambda>letter. case detected (letter_modules B_left C_right) lms label letter of
                                  Inl e \<Rightarrow> False | Inr d \<Rightarrow> truthy d) LETTERS of
                None \<Rightarrow> '''' | Some letter \<Rightarrow> letter)"
proof -
  have "\<forall>l \<in> set LETTERS. \<not> isl (detected (letter_modules B_left C_right) lms label l)"
  proof
    fix l
    assume "l \<in> set LETTERS"
    with assms show "\<not> isl (detected (letter_modules B_left C_right) lms label l)"
      by (rule detected_returns [of lms B_left C_right])
  qed
  from check_letters_find [OF this] show ?thesis
    by (simp add: LETTERS_def)
qed

text \<open>On a right hand on which both the A rule and the B rule hold, the answer is A.\<close>

theorem classify_first_match_in_order_witness:
  "A_detect_right_hand (Some pose_tie) = Inr ''A''
   \<and> B_detect_right_hand (Some pose_tie) = Inr ''B''
   \<and> check_letters (letter_modules never_matches never_matches) pose_tie ''Right'' LETTERS
       = Inr ''A''"
  using classify_first_match_in_order [of pose_tie never_matches never_matches "''Right''"]
    A_pose_tie B_pose_tie
  by (simp add: length_pose_tie never_matches_returns LETTERS_def detected_def
      letter_modules_def convert_mediapipe_to_points_def returns_str_def truthy_def
      convert_pose_tie)

section \<open>Handedness labels\<close>

text \<open>
  Claim C4 says that a handedness label other than Left and Right gives no match
  without a rule being evaluated. The server only compares the label with
  \<open>"Left"\<close>: on the right-hand fist the label \<open>"Unknown"\<close> gives the letter A, in the
  loop and in the reply to the frame.
\<close>

theorem unknown_handedness_counterexample:
  "check_letters (letter_modules never_matches never_matches) pose_fist ''Unknown'' LETTERS
     = Inr ''A''
   \<and> translation (frame_response (letter_modules never_matches never_matches)
        [pose_fist] [''Unknown'']) = ''A''"
  by (simp add: LETTERS_def detected_def letter_modules_def convert_mediapipe_to_points_def
      returns_str_def truthy_def convert_pose_fist A_pose_fist frame_response_def)

text \<open>
  Claim C4, as the code has it: every label other than \<open>"Left"\<close> is handled as
  \<open>"Right"\<close>, that is, the right-hand detectors are called, for every table of
  modules, every landmark list and every list of letters.
\<close>

theorem handedness_other_than_Left_is_Right:
  assumes "label \<noteq> ''Left''"
  shows "check_letters mods lms label letters = check_letters mods lms ''Right'' letters"
proof (induction letters)
  case Nil
  show ?case by simp
next
  case (Cons letter rest)
  have "detected mods lms label letter = detected mods lms ''Right'' letter"
    using assms by (rule detected_not_Left)
  with Cons show ?case by (simp cong: if_cong)
qed

theorem handedness_other_than_Left_is_Right_witness:
  "check_letters (letter_modules never_matches never_matches) pose_fist ''Unknown'' LETTERS
     = check_letters (letter_modules never_matches never_matches) pose_fist ''Right'' LETTERS"
  using handedness_other_than_Left_is_Right
    [of "''Unknown''" "letter_modules never_matches never_matches" pose_fist LETTERS]
  by simp

section \<open>Mirror symmetry\<close>

text \<open>
  Claim C3 says that the left-hand A detector on the reflected landmarks agrees with
  the right-hand A detector on the landmarks. On the fist, whose fingertips lie below
  the middle joints but above the base joints, the right-hand detector answers A and
  the left-hand detector on the reflection answers the empty string.
\<close>

theorem A_mirror_counterexample:
  "A_detect_right_hand (Some pose_fist) = Inr ''A''
   \<and> A_detect_left_hand (Some (mirror pose_fist)) = Inr ''''"
  by (simp add: A_pose_fist A_left_21 length_pose_fist nth_mirror) (simp add: pose_fist_def)

text \<open>
  Claim C3, as the code has it, for a list \<open>L\<close> of at least 21 landmarks. The symmetry
  holds for the letter D, whose left-hand module reflects its input and runs the
  right-hand rule: the left-hand D detector on \<open>mirror L\<close> equals the right-hand D
  detector on \<open>L\<close>. The left-hand A detector on \<open>mirror L\<close> answers A exactly when, in
  \<open>L\<close>, every fingertip is below its base joint (5, 9, 13, 17) and the thumb tip is
  to the right of thumb joint 2, whereas the right-hand A detector on \<open>L\<close> compares
  with the middle joints (6, 10, 14, 18) and with thumb joint 3.
\<close>

theorem mirror_symmetry_D_and_A_joints:
  assumes "21 \<le> length L"
  shows "D_detect_left_hand (Some (mirror L)) = D_detect_right_hand (Some L)
         \<and> A_detect_left_hand (Some (mirror L)) =
           Inr (if (p_y (L ! 8) > p_y (L ! 5) \<and> p_y (L ! 12) > p_y (L ! 9)
                    \<and> p_y (L ! 16) > p_y (L ! 13) \<and> p_y (L ! 20) > p_y (L ! 17))
                   \<and> p_x (L ! 4) > p_x (L ! 2) then ''A'' else '''')
         \<and> A_detect_right_hand (Some L) =
           Inr (if (p_y (L ! 8) > p_y (L ! 6) \<and> p_y (L ! 12) > p_y (L ! 10)
                    \<and> p_y (L ! 16) > p_y (L ! 14) \<and> p_y (L ! 20) > p_y (L ! 18))
                   \<and> p_x (L ! 4) > p_x (L ! 3) then ''A'' else '''')"
  using assms by (simp add: D_left_on_mirror A_left_21 A_right_21 nth_mirror)

theorem mirror_symmetry_D_and_A_joints_witness:
  "D_detect_left_hand (Some (mirror pose_tie)) = D_detect_right_hand (Some pose_tie)
   \<and> A_detect_left_hand (Some (mirror pose_tie)) = Inr ''''
   \<and> A_detect_right_hand (Some pose_tie) = Inr ''A''"
  using mirror_symmetry_D_and_A_joints [of pose_tie]
  by (simp add: length_pose_tie) (simp add: pose_tie_def)

section \<open>Scaling\<close>

text \<open>
  Claim C5 says that scaling the \<open>x\<close> and \<open>y\<close> coordinates about the wrist by a factor
  \<open>k > 0\<close> never changes the result. The B rule compares the vertical distance
  between the thumb tip and the index base with the absolute threshold 0.1: the flat
  hand is a B, and the same hand scaled by 2 is not, for the detector and for the
  loop over the letters.
\<close>

theorem scale_invariance_counterexample:
  "B_detect_right_hand (Some pose_flat) = Inr ''B''
   \<and> B_detect_right_hand (Some (scale_about_wrist 2 pose_flat)) = Inr ''''
   \<and> check_letters (letter_modules never_matches never_matches) pose_flat ''Right'' LETTERS
       = Inr ''B''
   \<and> check_letters (letter_modules never_matches never_matches)
        (scale_about_wrist 2 pose_flat) ''Right'' LETTERS = Inr ''''"
  by (simp add: B_pose_flat B_scaled_pose_flat A_pose_flat A_scaled_pose_flat
      convert_pose_flat convert_scaled_pose_flat LETTERS_def detected_def letter_modules_def
      convert_mediapipe_to_points_def returns_str_def truthy_def never_matches_def)

text \<open>
  Claim C5, as the code has it, for every landmark list and every \<open>k > 0\<close>: scaling
  about the wrist leaves the results of both A detectors unchanged, and of the palm
  orientation, finger extension and thumb folding tests of the B rule; the B rule
  with alignment threshold \<open>t\<close> on the scaled landmarks answers what the B rule
  with threshold \<open>t / k\<close> answers on the original landmarks.
\<close>

theorem scaling_A_invariant_B_rescales_threshold:
  assumes "0 < k"
  shows "A_detect_right_hand (Some (scale_about_wrist k L)) = A_detect_right_hand (Some L)
     \<and> A_detect_left_hand (Some (scale_about_wrist k L)) = A_detect_left_hand (Some L)
     \<and> is_right_hand_palm_visible (scale_about_wrist k L) = is_right_hand_palm_visible L
     \<and> are_four_fingers_extended (scale_about_wrist k L) = are_four_fingers_extended L
     \<and> is_thumb_folded_against_palm (scale_about_wrist k L) = is_thumb_folded_against_palm L
     \<and> detect_right_hand_b_gesture \<lparr>thumb_alignment_threshold = t\<rparr>
          (Some (scale_about_wrist k L))
       = detect_right_hand_b_gesture \<lparr>thumb_alignment_threshold = t / k\<rparr> (Some L)"
proof -
  have "detect_right_hand_b_gesture \<lparr>thumb_alignment_threshold = t\<rparr>
          (Some (scale_about_wrist k L))
       = detect_right_hand_b_gesture \<lparr>thumb_alignment_threshold = t / k\<rparr> (Some L)"
    by (simp only: detect_right_hand_b_gesture_def option.case length_scale
        palm_visible_scale [OF assms] four_fingers_scale [OF assms]
        thumb_folded_scale [OF assms] thumb_aligned_scale [OF assms])
  with assms show ?thesis
    by (simp only: A_right_scale A_left_scale palm_visible_scale four_fingers_scale
        thumb_folded_scale simp_thms)
qed

text \<open>
  The flat hand scaled by 2: the default threshold 0.1 acts as 0.05 on the original
  hand.
\<close>

theorem scaling_A_invariant_B_rescales_threshold_witness:
  "A_detect_right_hand (Some (scale_about_wrist 2 pose_flat)) = A_detect_right_hand (Some pose_flat)
   \<and> B_detect_right_hand (Some (scale_about_wrist 2 pose_flat))
       = detect_right_hand_b_gesture \<lparr>thumb_alignment_threshold = 0.05\<rparr> (Some pose_flat)"
  using scaling_A_invariant_B_rescales_threshold [of 2 pose_flat "0.1"]
  by (simp add: B_detect_right_hand_def)

section \<open>The detectors leave their input unchanged\<close>

text \<open>
  Claim C10. No detector changes its input: after a call of any detector, left or
  right, every object that was in the store before the call, and so every landmark
  of the input list, has the \<open>x\<close>, \<open>y\<close> and \<open>z\<close> it had before. The left-hand
  detectors of C, D and F mirror by allocation: on at least 21 landmarks the store
  after the call is the store before it followed by one new mirrored \<open>Point\<close> per
  landmark, and the result is that of the detector on the landmark values.
\<close>

theorem detectors_do_not_mutate_their_input:
  assumes "det \<in> set store_detectors" and "r < length h"
  shows "(length h \<le> length (fst (det h arg)) \<and> fst (det h arg) ! r = h ! r)
     \<and> (21 \<le> length lms \<and> (\<forall>a \<in> set lms. a < length h) \<longrightarrow>
          C_detect_left_hand_store h (Some lms) =
            (h @ mirror (deref h lms), returns_bool C_detect_left_hand (Some (deref h lms)))
          \<and> D_detect_left_hand_store h (Some lms) =
            (h @ mirror (deref h lms), returns_bool D_detect_left_hand (Some (deref h lms)))
          \<and> F_detect_left_hand_f_real_camera_store h (Some lms) =
            (h @ mirror (deref h lms),
             returns_bool F_detect_left_hand_f_real_camera (Some (deref h lms))))"
proof -
  from store_detector_extends [OF assms(1)] obtain ext where "fst (det h arg) = h @ ext"
    by blast
  with assms(2) have "length h \<le> length (fst (det h arg)) \<and> fst (det h arg) ! r = h ! r"
    by (simp add: nth_append)
  then show ?thesis
    by (simp add: C_store_refines D_store_refines F_store_refines)
qed

text \<open>
  A store that holds the flat hand, passed as the references 0 to 20 to the
  left-hand D detector.
\<close>

theorem detectors_do_not_mutate_their_input_witness:
  "fst (D_detect_left_hand_store pose_flat (Some [0 ..< length pose_flat])) ! 4 = pose_flat ! 4
   \<and> D_detect_left_hand_store pose_flat (Some [0 ..< length pose_flat]) =
       (pose_flat @ mirror pose_flat, returns_bool D_detect_left_hand (Some pose_flat))"
  using detectors_do_not_mutate_their_input
    [of D_detect_left_hand_store 4 pose_flat "Some [0 ..< length pose_flat]"
      "[0 ..< length pose_flat]"]
  by (simp add: store_detectors_def deref_all) (simp add: length_pose_flat nth_append)

end
